theory Spec2Isabelle
  imports Main
begin

section \<open>JavaScript strings and numbers, as far as the client uses them\<close>

text \<open>
  The control channel decodes every buffer with \<open>data.toString("binary")\<close>: one
  character per byte, so a received buffer and its decoded string are the same list of
  8-bit characters. Strings of the client are modelled as \<open>string\<close> throughout.
\<close>

abbreviation CR :: char where "CR \<equiv> CHR 0x0D"
abbreviation LF :: char where "LF \<equiv> CHR 0x0A"

text \<open>\<open>NEW_LINE = "\r\n"\<close> (expressions.ts).\<close>

definition NEW_LINE :: string where
  "NEW_LINE = [CR, LF]"

definition is_digit :: "char \<Rightarrow> bool" where
  "is_digit c = (c \<in> set ''0123456789'')"

text \<open>
  The characters \<open>String.prototype.trim\<close> strips, among the 256 of a binary string:
  TAB, LF, VT, FF, CR, SP and NBSP.
\<close>

definition is_space :: "char \<Rightarrow> bool" where
  "is_space c = (c \<in> set [CHR 0x09, LF, CHR 0x0B, CHR 0x0C, CR, CHR 0x20, CHR 0xA0])"

definition trim :: "string \<Rightarrow> string" where
  "trim s = rev (dropWhile is_space (rev (dropWhile is_space s)))"

text \<open>
  A regular expression's \<open>.\<close> matches every character but a line terminator
  (CR and LF among the 256).
\<close>

definition dot :: "char \<Rightarrow> bool" where
  "dot c = (c \<noteq> CR \<and> c \<noteq> LF)"

text \<open>\<open>s.split("\r\n")\<close>: the pieces between the occurrences of CR LF, left to right.\<close>

fun split_NEW_LINE :: "string \<Rightarrow> string list" where
  "split_NEW_LINE [] = [[]]"
| "split_NEW_LINE [c] = [[c]]"
| "split_NEW_LINE (c # d # cs) =
     (if c = CR \<and> d = LF then [] # split_NEW_LINE cs
      else (case split_NEW_LINE (d # cs) of
              [] \<Rightarrow> [[c]]
            | l # ls \<Rightarrow> (c # l) # ls))"

text \<open>\<open>s.split(sep)\<close> for a separator of one character (\<open>"/"\<close>, \<open>/;/g\<close>, \<open>/=/\<close>).\<close>

fun split_char :: "char \<Rightarrow> string \<Rightarrow> string list" where
  "split_char sep [] = [[]]"
| "split_char sep (c # cs) =
     (if c = sep then [] # split_char sep cs
      else (case split_char sep cs of
              [] \<Rightarrow> [[c]]
            | l # ls \<Rightarrow> (c # l) # ls))"

text \<open>\<open>s.includes(sub)\<close>: \<open>sub\<close> occurs in \<open>s\<close> as a substring.\<close>

fun starts_with :: "string \<Rightarrow> string \<Rightarrow> bool" where
  "starts_with s [] = True"
| "starts_with [] (p # ps) = False"
| "starts_with (c # cs) (p # ps) = (c = p \<and> starts_with cs ps)"

fun str_includes :: "string \<Rightarrow> string \<Rightarrow> bool" where
  "str_includes [] sub = (sub = [])"
| "str_includes (c # cs) sub = (starts_with (c # cs) sub \<or> str_includes cs sub)"

text \<open>
  \<open>parseInt\<close>: leading white space is skipped, a sign is read, then the longest run
  of digits; no digit at all gives \<open>NaN\<close>, which is \<open>None\<close> here. With no radix
  argument a prefix \<open>0x\<close> or \<open>0X\<close> selects base 16. Numbers are the integers they
  denote: the rounding of values beyond 2^53 is not modelled.
\<close>

definition digit_val :: "char \<Rightarrow> int" where
  "digit_val c = int (of_char c) - 48"

definition is_hex_digit :: "char \<Rightarrow> bool" where
  "is_hex_digit c = (c \<in> set ''0123456789abcdefABCDEF'')"

definition hex_val :: "char \<Rightarrow> int" where
  "hex_val c =
     (if is_digit c then int (of_char c) - 48
      else if c \<in> set ''abcdef'' then int (of_char c) - 87
      else int (of_char c) - 55)"

definition strip_sign :: "string \<Rightarrow> int \<times> string" where
  "strip_sign s =
     (case s of
        [] \<Rightarrow> (1, [])
      | c # cs \<Rightarrow> if c = CHR ''-'' then (- 1, cs) else if c = CHR ''+'' then (1, cs) else (1, s))"

definition parseInt10 :: "string \<Rightarrow> int option" where
  "parseInt10 s =
     (case strip_sign (dropWhile is_space s) of
        (sg, u) \<Rightarrow>
          (let ds = takeWhile is_digit u
           in if ds = [] then None
              else Some (sg * foldl (\<lambda>a c. 10 * a + digit_val c) 0 ds)))"

definition parseInt :: "string \<Rightarrow> int option" where
  "parseInt s =
     (case strip_sign (dropWhile is_space s) of
        (sg, u) \<Rightarrow>
          if starts_with u ''0x'' \<or> starts_with u ''0X'' then
            (let hs = takeWhile is_hex_digit (drop 2 u)
             in if hs = [] then None
                else Some (sg * foldl (\<lambda>a c. 16 * a + hex_val c) 0 hs))
          else
            (let ds = takeWhile is_digit u
             in if ds = [] then None
                else Some (sg * foldl (\<lambda>a c. 10 * a + digit_val c) 0 ds)))"

section \<open>Errors\<close>

text \<open>
  The exception classes of exceptions.ts, each with its message and the reply code it
  carries (the inner exception, which only repeats the reply text, is left out), and the
  \<open>TypeError\<close> the runtime throws on a property read of \<open>null\<close> or \<open>undefined\<close>.
\<close>

datatype exn =
    TypeError
  | FtpException string "int option"
  | FtpFileNotFoundException string "int option"
  | FtpTimeoutException string
  | FtpDirectoryNotFoundException string "int option"
  | FtpNetworkException string
  | FtpAuthorizationException string "int option"

section \<open>The command connection\<close>

record FtpResponse =
  code :: int
  message :: string

record FtpFeatures =
  MDTM :: bool
  MFMT :: bool
  MLSD :: bool
  MLST :: bool
  SIZE :: bool
  UTF8 :: bool
  EPSV :: bool

datatype socket_state = Established | Connecting | Destroyed

text \<open>
  The state of an \<open>FtpCommandConnection\<close>. \<open>responseBuffer\<close>, \<open>commandBuffer\<close>,
  \<open>responseQueue\<close> and \<open>features\<close> are its fields; \<open>host\<close>, \<open>user\<close> and
  \<open>password\<close> are those of its \<open>configuration\<close>. The socket is represented by what
  the client can observe of it: \<open>sock\<close> (destroyed, connecting or established),
  \<open>written\<close> (the lines handed to \<open>socket.write\<close>, without their CR LF, oldest
  first) and \<open>dataStreams\<close> (for each passive data connection still to be opened, the
  chunks its socket will deliver before the peer closes). \<open>responseQueue\<close> is filled by
  \<open>onData\<close>; where a command is run, it holds the replies that will have arrived by the
  time the command polls for them, and an empty queue means that nothing arrives before
  the timeout. \<open>lastIndex\<close> is the \<open>lastIndex\<close> of the module's global regular
  expression \<open>RE_LAST_MOD_TIME\<close>.
\<close>

record FtpCommandConnection =
  sock :: socket_state
  host :: string
  user :: string
  password :: string
  features :: FtpFeatures
  responseBuffer :: "string list"
  commandBuffer :: string
  responseQueue :: "FtpResponse list"
  written :: "string list"
  dataStreams :: "string list list"
  lastIndex :: nat

section \<open>The reply parser\<close>

text \<open>
  \<open>RE_CMD_LINE = /(((^\d{3})[^\-]|(^\d{3})(\-))(.+))|(.+)/\<close>. Of a match the parser
  reads the groups 3 (the code of a line \<open>NNN\<close> followed by a character other than
  \<open>-\<close>), 6 (the text after that character, or after \<open>NNN-\<close>) and 7 (the text of
  a line the first alternative does not match); group 4 is the code of a line \<open>NNN-\<close>.
\<close>

record cmd_match =
  g3 :: "string option"
  g4 :: "string option"
  g6 :: "string option"
  g7 :: "string option"

text \<open>\<open>(.+)\<close> at the head of a string: the longest run of non-terminators, not empty.\<close>

definition dot_plus :: "string \<Rightarrow> string option" where
  "dot_plus s = (let r = takeWhile dot s in if r = [] then None else Some r)"

text \<open>
  The first alternative. Both of its branches are anchored by \<open>^\<close>, so it can match at
  index 0 only; the branches exclude each other on the fourth character.
\<close>

fun RE_CMD_LINE_alt1 :: "string \<Rightarrow> cmd_match option" where
  "RE_CMD_LINE_alt1 (d1 # d2 # d3 # c # rest) =
     (if is_digit d1 \<and> is_digit d2 \<and> is_digit d3 then
        (case dot_plus rest of
           None \<Rightarrow> None
         | Some t \<Rightarrow>
             if c \<noteq> CHR ''-''
             then Some \<lparr>g3 = Some [d1, d2, d3], g4 = None, g6 = Some t, g7 = None\<rparr>
             else Some \<lparr>g3 = None, g4 = Some [d1, d2, d3], g6 = Some t, g7 = None\<rparr>)
      else None)"
| "RE_CMD_LINE_alt1 s = None"

text \<open>
  The second alternative \<open>(.+)\<close> matches at the first index that holds a
  non-terminator, and takes the run from there.
\<close>

definition RE_CMD_LINE_alt2 :: "string \<Rightarrow> cmd_match option" where
  "RE_CMD_LINE_alt2 s =
     (case dot_plus (dropWhile (\<lambda>c. \<not> dot c) s) of
        None \<Rightarrow> None
      | Some t \<Rightarrow> Some \<lparr>g3 = None, g4 = None, g6 = None, g7 = Some t\<rparr>)"

text \<open>
  \<open>RE_CMD_LINE.exec(line)\<close>: at index 0 the first alternative is tried before the
  second; at a later index only the second can match. \<open>None\<close> is \<open>null\<close>.
\<close>

definition RE_CMD_LINE_exec :: "string \<Rightarrow> cmd_match option" where
  "RE_CMD_LINE_exec s =
     (case RE_CMD_LINE_alt1 s of
        Some m \<Rightarrow> Some m
      | None \<Rightarrow> RE_CMD_LINE_alt2 s)"

text \<open>
  \<open>parseInt(match[3], 10)\<close> as the reply's code. Group 3 is three digits, so the
  result is never \<open>NaN\<close> (lemma \<open>parseInt10_three_digits\<close> below).
\<close>

definition code_of :: "string \<Rightarrow> int" where
  "code_of d = (case parseInt10 d of Some n \<Rightarrow> n | None \<Rightarrow> 0)"

text \<open>
  The loop of \<open>parseResponse\<close> over \<open>responseBuffer\<close>, with \<open>commandBuffer\<close> and
  the local array \<open>response\<close>: it shifts a line, stops at an empty buffer or a falsy
  (empty) line, appends \<open>(match[6] || match[7]) + NEW_LINE\<close> to the command buffer and,
  when group 3 took part in the match, pushes a reply with the whole command buffer as
  its message and clears the buffer. \<open>match[6]\<close> on a \<open>null\<close> match throws.
\<close>

fun parseResponse_loop ::
  "string list \<Rightarrow> string \<Rightarrow> FtpResponse list \<Rightarrow> exn + (string list \<times> string \<times> FtpResponse list)" where
  "parseResponse_loop [] cb response = Inr ([], cb, response)"
| "parseResponse_loop (line # rest) cb response =
     (if line = [] then Inr (rest, cb, response)
      else
        (case RE_CMD_LINE_exec line of
           None \<Rightarrow> Inl TypeError
         | Some m \<Rightarrow>
             (let cb' = cb @ (case g6 m of
                               Some t \<Rightarrow> t
                             | None \<Rightarrow> (case g7 m of Some t \<Rightarrow> t | None \<Rightarrow> ''undefined''))
                           @ NEW_LINE
              in case g3 m of
                   Some d \<Rightarrow>
                     parseResponse_loop rest [] (response @ [\<lparr>code = code_of d, message = cb'\<rparr>])
                 | None \<Rightarrow> parseResponse_loop rest cb' response)))"

text \<open>
  \<open>parseResponse(data)\<close>: the non-blank lines of the chunk are appended to
  \<open>responseBuffer\<close> and the loop runs. An exception leaves the \<open>data\<close> handler
  uncaught, which ends the process: no state is returned with it.
\<close>

definition parseResponse ::
  "string \<Rightarrow> FtpCommandConnection \<Rightarrow> exn + (FtpResponse list \<times> FtpCommandConnection)" where
  "parseResponse data c =
     (case parseResponse_loop
             (responseBuffer c @ filter (\<lambda>l. trim l \<noteq> []) (split_NEW_LINE data))
             (commandBuffer c) [] of
        Inl e \<Rightarrow> Inl e
      | Inr (rb, cb, response) \<Rightarrow> Inr (response, c\<lparr>responseBuffer := rb, commandBuffer := cb\<rparr>))"

text \<open>\<open>onData(data)\<close>: every reply parsed from the chunk is pushed on the queue.\<close>

definition onData :: "string \<Rightarrow> FtpCommandConnection \<Rightarrow> exn + FtpCommandConnection" where
  "onData data c =
     (case parseResponse data c of
        Inl e \<Rightarrow> Inl e
      | Inr (response, c') \<Rightarrow> Inr (c'\<lparr>responseQueue := responseQueue c' @ response\<rparr>))"

text \<open>Successive \<open>data\<close> events on the control socket, one per chunk.\<close>

fun onData_all :: "string list \<Rightarrow> FtpCommandConnection \<Rightarrow> exn + FtpCommandConnection" where
  "onData_all [] c = Inr c"
| "onData_all (d # ds) c =
     (case onData d c of
        Inl e \<Rightarrow> Inl e
      | Inr c' \<Rightarrow> onData_all ds c')"

text \<open>
  A connection as its constructor leaves it (the defaults of the configuration), its
  socket connected, nothing received yet.
\<close>

definition new_connection :: FtpCommandConnection where
  "new_connection =
     \<lparr>sock = Established, host = ''localhost'',
      user = ''anonymous'', password = ''anonymous'',
      features = \<lparr>MDTM = False, MFMT = False, MLSD = False, MLST = False,
                  SIZE = False, UTF8 = False, EPSV = False\<rparr>,
      responseBuffer = [], commandBuffer = [], responseQueue = [],
      written = [], dataStreams = [], lastIndex = 0\<rparr>"

text \<open>
  The two shapes of line the first alternative of \<open>RE_CMD_LINE\<close> matches, read off the
  characters of the line, and the text a line that closes nothing adds to the command
  buffer. They state the parser's classification without the regular expression.
\<close>

fun closes_reply :: "string \<Rightarrow> bool" where
  "closes_reply (d1 # d2 # d3 # c # r # rest) =
     (is_digit d1 \<and> is_digit d2 \<and> is_digit d3 \<and> c \<noteq> CHR ''-'' \<and> dot r)"
| "closes_reply s = False"

fun continues_reply :: "string \<Rightarrow> bool" where
  "continues_reply (d1 # d2 # d3 # c # r # rest) =
     (is_digit d1 \<and> is_digit d2 \<and> is_digit d3 \<and> c = CHR ''-'' \<and> dot r)"
| "continues_reply s = False"

definition appended_text :: "string \<Rightarrow> string" where
  "appended_text l =
     (if continues_reply l then takeWhile dot (drop 4 l)
      else takeWhile dot (dropWhile (\<lambda>c. \<not> dot c) l))"

section \<open>Commands on the control channel\<close>

text \<open>
  An \<open>async\<close> method run on the command connection: it takes the connection's state
  and gives back what its promise settles with, \<open>Inr\<close> the value it resolves with or
  \<open>Inl\<close> the exception it rejects with, and the state it leaves. \<open>await m f\<close> is
  \<open>x = await m; f x\<close>: a rejection of \<open>m\<close> is thrown on and \<open>f\<close> never runs.
\<close>

type_synonym 'a promise = "FtpCommandConnection \<Rightarrow> (exn + 'a) \<times> FtpCommandConnection"

definition resolve :: "'a \<Rightarrow> 'a promise" where
  "resolve x c = (Inr x, c)"

definition reject :: "exn \<Rightarrow> 'a promise" where
  "reject e c = (Inl e, c)"

definition await :: "'a promise \<Rightarrow> ('a \<Rightarrow> 'b promise) \<Rightarrow> 'b promise" where
  "await m f c =
     (case m c of
        (Inl e, c') \<Rightarrow> (Inl e, c')
      | (Inr x, c') \<Rightarrow> f x c')"

text \<open>
  \<open>write(data)\<close> sends \<open>data + "\r\n"\<close>, encoded as UTF-8, and resolves with the
  number of bytes. The socket takes every line here: the rejections of \<open>write\<close> (an
  error reported by the socket, a byte count that does not match) are not modelled. A
  \<open>write\<close> that the source does not await still hands its line to the socket before
  the next statement runs.
\<close>

definition utf8_length :: "string \<Rightarrow> nat" where
  "utf8_length s = sum_list (map (\<lambda>c. if (of_char c :: nat) < 128 then 1 else 2) s)"

definition conn_write :: "string \<Rightarrow> nat promise" where
  "conn_write data c =
     (Inr (utf8_length (data @ NEW_LINE)), c\<lparr>written := written c @ [data]\<rparr>)"

text \<open>
  \<open>getResponse()\<close> polls the queue and shifts its first reply; with nothing in the
  queue when the timeout fires it rejects.
\<close>

definition getResponse :: "FtpResponse promise" where
  "getResponse c =
     (case responseQueue c of
        [] \<Rightarrow> (Inl (FtpTimeoutException ''Command response timeout''), c)
      | r # rs \<Rightarrow> (Inr r, c\<lparr>responseQueue := rs\<rparr>))"

text \<open>\<open>send(command)\<close> runs the command's \<open>execute\<close> on a socket that is up.\<close>

definition send :: "'a promise \<Rightarrow> 'a promise" where
  "send command c =
     (if sock c = Destroyed
      then (Inl (FtpNetworkException ''Cannot send command when connection is closed''), c)
      else if sock c = Connecting
      then (Inl (FtpNetworkException
                  ''Cannot send command when connection is not established''), c)
      else command c)"

text \<open>\<open>FtpException.FromResponse(message, response)\<close>.\<close>

definition FromResponse :: "string \<Rightarrow> FtpResponse \<Rightarrow> exn" where
  "FromResponse msg response = FtpException msg (Some (code response))"

text \<open>
  \<open>toUpperCase\<close> and \<open>toLowerCase\<close> on the ASCII letters; the client applies them to
  option names and to the fact names of a listing.
\<close>

definition toUpperCase :: "string \<Rightarrow> string" where
  "toUpperCase s =
     map (\<lambda>c. if c \<in> set ''abcdefghijklmnopqrstuvwxyz''
               then char_of ((of_char c :: nat) - 32) else c) s"

definition toLowerCase :: "string \<Rightarrow> string" where
  "toLowerCase s =
     map (\<lambda>c. if c \<in> set ''ABCDEFGHIJKLMNOPQRSTUVWXYZ''
               then char_of ((of_char c :: nat) + 32) else c) s"

subsection \<open>Login\<close>

definition FtpWelcomeCommand_execute :: "unit promise" where
  "FtpWelcomeCommand_execute =
     await getResponse (\<lambda>response.
       if code response \<noteq> 220
       then reject (FtpException ''Welcome response code invalid, aborting'' None)
       else resolve ())"

definition FtpUserCommand_execute :: "string \<Rightarrow> unit promise" where
  "FtpUserCommand_execute usr =
     await (conn_write (''USER '' @ usr)) (\<lambda>_.
     await getResponse (\<lambda>response.
       if code response \<noteq> 331
       then reject (FtpException ''Cannot login to ftp server'' None)
       else resolve ()))"

definition FtpPasswordCommand_execute :: "string \<Rightarrow> unit promise" where
  "FtpPasswordCommand_execute pass =
     await (conn_write (''PASS '' @ pass)) (\<lambda>_.
     await getResponse (\<lambda>response.
       if code response = 530
       then reject (FtpAuthorizationException ''Login failed'' (Some 530))
       else resolve ()))"

definition FtpFeaturesCommand_execute :: "FtpFeatures promise" where
  "FtpFeaturesCommand_execute =
     await (conn_write ''FEAT'') (\<lambda>_.
     await getResponse (\<lambda>response.
       if code response \<noteq> 211
       then reject (FromResponse ''Cannot retrieve server features'' response)
       else resolve
         \<lparr>MDTM = str_includes (message response) ''MDTM'',
          MFMT = str_includes (message response) ''MFMT'',
          MLSD = str_includes (message response) ''MLSD'',
          MLST = str_includes (message response) ''MLST'',
          SIZE = str_includes (message response) ''SIZE'',
          UTF8 = str_includes (message response) ''UTF8'',
          EPSV = str_includes (message response) ''EPSV''\<rparr>))"

definition FtpOptionCommand_execute :: "string \<Rightarrow> string \<Rightarrow> unit promise" where
  "FtpOptionCommand_execute opt val =
     await (conn_write (''OPTS '' @ toUpperCase opt @ '' '' @ toUpperCase val)) (\<lambda>_.
     await getResponse (\<lambda>response.
       if code response \<ge> 300
       then reject (FtpException (''Cannot set option '' @ opt @ '':'' @ val)
                      (Some (code response)))
       else resolve ()))"

datatype FtpTransferMode = BINARY | TEXT

definition TransferModeCommand_execute :: "FtpTransferMode \<Rightarrow> unit promise" where
  "TransferModeCommand_execute mode =
     await (case mode of
              BINARY \<Rightarrow> conn_write ''TYPE I''
            | TEXT \<Rightarrow> conn_write ''TYPE A'') (\<lambda>_.
     await getResponse (\<lambda>response.
       if code response \<noteq> 200
       then reject (FtpException
                      (''Cannot set transfer mode to '' @
                         (if mode = BINARY then ''binary'' else ''ascii'')) None)
       else resolve ()))"

text \<open>\<open>_.assign(connection.features, features)\<close>: all seven keys are overwritten.\<close>

definition assign_features :: "FtpFeatures \<Rightarrow> unit promise" where
  "assign_features feats c = (Inr (), c\<lparr>features := feats\<rparr>)"

definition FtpLoginCommand_execute :: "string \<Rightarrow> string \<Rightarrow> unit promise" where
  "FtpLoginCommand_execute login pass =
     await (send FtpWelcomeCommand_execute) (\<lambda>_.
     await (send (FtpUserCommand_execute login)) (\<lambda>_.
     await (send (FtpPasswordCommand_execute pass)) (\<lambda>_.
     await (send FtpFeaturesCommand_execute) (\<lambda>feats.
     await (assign_features feats) (\<lambda>_.
     await (\<lambda>c. if UTF8 (features c)
                 then send (FtpOptionCommand_execute ''UTF8'' ''ON'') c
                 else resolve () c) (\<lambda>_.
     send (TransferModeCommand_execute BINARY)))))))"

text \<open>
  \<open>FtpCommandConnection.connect()\<close>, once the socket is connected: the login command
  with the user and the password of the configuration.
\<close>

definition connect :: "unit promise" where
  "connect c = send (FtpLoginCommand_execute (user c) (password c)) c"

subsection \<open>Working directory\<close>

definition CwdCommand_execute :: "string \<Rightarrow> bool promise" where
  "CwdCommand_execute path =
     await (conn_write (''CWD '' @ path)) (\<lambda>_.
     await getResponse (\<lambda>response.
       if code response \<ge> 300 then resolve False else resolve True))"

text \<open>
  \<open>RE_PWD = /"(.+)"(?: |$)/\<close>. \<open>RE_PWD_group t k\<close>: after an opening quote followed
  by the text \<open>t\<close>, group 1 can be the first \<open>k\<close> characters, that is, a quote
  stands at index \<open>k\<close> and is followed by a space or by the end of the input. The
  group is greedy: the largest \<open>k\<close> within the run of non-terminators wins. The match
  is tried at the first quote, then at the later ones.
\<close>

definition RE_PWD_group :: "string \<Rightarrow> nat \<Rightarrow> bool" where
  "RE_PWD_group t k =
     (k < length t \<and> t ! k = CHR 0x22 \<and> (Suc k = length t \<or> t ! Suc k = CHR '' ''))"

definition RE_PWD_at :: "string \<Rightarrow> string option" where
  "RE_PWD_at t =
     (case find (RE_PWD_group t) (rev [1 ..< Suc (length (takeWhile dot t))]) of
        None \<Rightarrow> None
      | Some k \<Rightarrow> Some (take k t))"

fun RE_PWD_exec :: "string \<Rightarrow> string option" where
  "RE_PWD_exec [] = None"
| "RE_PWD_exec (c # cs) =
     (if c = CHR 0x22
      then (case RE_PWD_at cs of
              Some g \<Rightarrow> Some g
            | None \<Rightarrow> RE_PWD_exec cs)
      else RE_PWD_exec cs)"

text \<open>
  \<open>PwdCommand\<close> resolves with \<open>match[1]\<close>, or with \<open>null\<close> (\<open>None\<close>) for an empty
  group; \<open>match[1]\<close> on a reply without a quoted path throws.
\<close>

definition PwdCommand_execute :: "string option promise" where
  "PwdCommand_execute =
     await (conn_write ''PWD'') (\<lambda>_.
     await getResponse (\<lambda>response.
       if code response \<ge> 300
       then reject (FtpException
              ''Cannot get current directory. Server returned 'not implemented' error code''
              None)
       else (case RE_PWD_exec (message response) of
               None \<Rightarrow> reject TypeError
             | Some g \<Rightarrow> resolve (if g \<noteq> [] then Some g else None))))"

text \<open>A value that may be \<open>null\<close>, as a template literal prints it.\<close>

definition or_null :: "string option \<Rightarrow> string" where
  "or_null v = (case v of None \<Rightarrow> ''null'' | Some s \<Rightarrow> s)"

text \<open>An optional argument that may be \<open>undefined\<close>, as a concatenation prints it.\<close>

definition or_undefined :: "string option \<Rightarrow> string" where
  "or_undefined v = (case v of None \<Rightarrow> ''undefined'' | Some s \<Rightarrow> s)"

subsection \<open>Node's \<open>path\<close> module (POSIX)\<close>

text \<open>
  \<open>path.sep\<close>, \<open>path.isAbsolute\<close>, \<open>path.normalize\<close> and \<open>path.join\<close> of a POSIX
  host, on the segments of a path: empty segments and \<open>.\<close> are dropped, \<open>..\<close>
  removes the segment before it, or stays when the path is relative and nothing is left
  to remove.
\<close>

definition fspath_sep :: char where
  "fspath_sep = CHR ''/''"

definition fspath_isAbsolute :: "string \<Rightarrow> bool" where
  "fspath_isAbsolute p = (case p of [] \<Rightarrow> False | c # cs \<Rightarrow> c = CHR ''/'')"

fun normalizeString :: "bool \<Rightarrow> string list \<Rightarrow> string list \<Rightarrow> string list" where
  "normalizeString allowAboveRoot res [] = res"
| "normalizeString allowAboveRoot res (s # ss) =
     (if s = [] \<or> s = ''.'' then normalizeString allowAboveRoot res ss
      else if s = ''..'' then
        (if res \<noteq> [] \<and> last res \<noteq> ''..''
         then normalizeString allowAboveRoot (butlast res) ss
         else if allowAboveRoot then normalizeString allowAboveRoot (res @ [''..'']) ss
         else normalizeString allowAboveRoot res ss)
      else normalizeString allowAboveRoot (res @ [s]) ss)"

fun join_segments :: "string list \<Rightarrow> string" where
  "join_segments [] = []"
| "join_segments [s] = s"
| "join_segments (s # t # ss) = s @ ''/'' @ join_segments (t # ss)"

definition fspath_normalize :: "string \<Rightarrow> string" where
  "fspath_normalize p =
     (if p = [] then ''.''
      else
        (let isAbsolute = fspath_isAbsolute p;
             trailingSeparator = (last p = CHR ''/'');
             q = join_segments (normalizeString (\<not> isAbsolute) [] (split_char CHR ''/'' p));
             q1 = (if q = [] \<and> \<not> isAbsolute then ''.'' else q);
             q2 = (if q1 \<noteq> [] \<and> trailingSeparator then q1 @ ''/'' else q1)
         in if isAbsolute then ''/'' @ q2 else q2))"

definition fspath_join :: "string \<Rightarrow> string \<Rightarrow> string" where
  "fspath_join a b =
     (if a = [] \<and> b = [] then ''.''
      else if a = [] then fspath_normalize b
      else if b = [] then fspath_normalize a
      else fspath_normalize (a @ ''/'' @ b))"

subsection \<open>SIZE\<close>

definition SizeCommand_execute :: "string \<Rightarrow> int option promise" where
  "SizeCommand_execute path =
     await (\<lambda>c. if SIZE (features c)
                 then conn_write (''SIZE '' @ path) c
                 else reject (FtpException ''SIZE feature not avaible on FTP server'' None) c)
       (\<lambda>_.
     await getResponse (\<lambda>response.
       if code response = 550
       then reject (FtpFileNotFoundException (''File '' @ path @ '' not found on server'')
                      (Some 550))
       else if code response \<noteq> 213
       then reject (FromResponse (''Cannot retrieve file '' @ path @ '' size'') response)
       else resolve (parseInt (message response))))"

subsection \<open>The client: probes\<close>

definition getFileSize :: "string \<Rightarrow> int option promise" where
  "getFileSize path = send (SizeCommand_execute path)"

text \<open>
  \<open>fileExists\<close>: \<open>try { await this.getFileSize(path) } catch (err) { if (err instanceof
  FtpFileNotFoundException) return false; throw err }; return true\<close>.
\<close>

definition fileExists :: "string \<Rightarrow> bool promise" where
  "fileExists path c =
     (case getFileSize path c of
        (Inl err, c') \<Rightarrow>
          (case err of
             FtpFileNotFoundException m k \<Rightarrow> (Inr False, c')
           | _ \<Rightarrow> (Inl err, c'))
      | (Inr n, c') \<Rightarrow> (Inr True, c'))"

definition getCurrentDirectory :: "string option promise" where
  "getCurrentDirectory = send PwdCommand_execute"

definition setCurrentDirectory :: "string option \<Rightarrow> bool promise" where
  "setCurrentDirectory path = send (CwdCommand_execute (or_null path))"

text \<open>
  \<open>directoryExists(path?)\<close>. An \<open>undefined\<close> path, or a \<open>null\<close> current directory
  with a relative path, makes the \<open>path\<close> module throw a \<open>TypeError\<close>.
\<close>

definition directoryExists :: "string option \<Rightarrow> bool promise" where
  "directoryExists path =
     await getCurrentDirectory (\<lambda>currentDir.
       (case path of
          None \<Rightarrow> reject TypeError
        | Some p \<Rightarrow>
            await (if fspath_isAbsolute p then resolve p
                   else (case currentDir of
                           None \<Rightarrow> reject TypeError
                         | Some d \<Rightarrow> resolve (fspath_join d p))) (\<lambda>toCheck.
            await (send (CwdCommand_execute toCheck)) (\<lambda>pathExists.
            await (setCurrentDirectory currentDir) (\<lambda>_.
            resolve pathExists)))))"

subsection \<open>Rename\<close>

text \<open>
  The constructors of the rename commands check their arguments and throw. An argument
  is \<open>None\<close> when the caller passed \<open>null\<close> or \<open>undefined\<close>.
\<close>

definition RenameFromCommand_new :: "string option \<Rightarrow> exn + string" where
  "RenameFromCommand_new from_name =
     (case from_name of
        None \<Rightarrow> Inl (FtpException ''Argument `from` cannot be null'' None)
      | Some f \<Rightarrow>
          if length f = 0 then Inl (FtpException ''Argument `from` cannot be null'' None)
          else Inr f)"

definition RenameFromCommand_execute :: "string \<Rightarrow> unit promise" where
  "RenameFromCommand_execute from_name =
     await (conn_write (''RNFR '' @ from_name)) (\<lambda>_.
     await getResponse (\<lambda>response.
       if code response = 550
       then reject (FtpFileNotFoundException (''Cannot rename '' @ from_name) (Some 550))
       else if code response \<noteq> 350
       then reject (FromResponse (''Cannot rename '' @ from_name) response)
       else resolve ()))"

definition RenameToCommand_new :: "string option \<Rightarrow> exn + string" where
  "RenameToCommand_new to_name =
     (case to_name of
        None \<Rightarrow> Inl (FtpException ''Argument `to` cannot be null'' None)
      | Some t \<Rightarrow>
          if length t = 0 then Inl (FtpException ''Argument `to` cannot be null'' None)
          else Inr t)"

definition RenameToCommand_execute :: "string \<Rightarrow> unit promise" where
  "RenameToCommand_execute to_name =
     await (conn_write (''RNTO '' @ to_name)) (\<lambda>_.
     await getResponse (\<lambda>response.
       if code response \<noteq> 250
       then reject (FtpException (''Cannot rename '' @ to_name) (Some (code response)))
       else resolve ()))"

record RenameCommand =
  rename_from :: string
  rename_to :: string

text \<open>\<open>new RenameCommand(from, to)\<close>: \<open>to\<close> is checked first, then \<open>from\<close>.\<close>

definition RenameCommand_new :: "string option \<Rightarrow> string option \<Rightarrow> exn + RenameCommand" where
  "RenameCommand_new from_name to_name =
     (case to_name of
        None \<Rightarrow> Inl (FtpException ''Argument `to` cannot be null or empty'' None)
      | Some t \<Rightarrow>
          if length t = 0
          then Inl (FtpException ''Argument `to` cannot be null or empty'' None)
          else
            (case from_name of
               None \<Rightarrow> Inl (FtpException ''Argument `from` cannot be null or empty'' None)
             | Some f \<Rightarrow>
                 if length f = 0
                 then Inl (FtpException ''Argument `from` cannot be null or empty'' None)
                 else Inr \<lparr>rename_from = f, rename_to = t\<rparr>))"

definition RenameCommand_execute :: "RenameCommand \<Rightarrow> unit promise" where
  "RenameCommand_execute cmd =
     await (case RenameFromCommand_new (Some (rename_from cmd)) of
              Inl e \<Rightarrow> reject e
            | Inr f \<Rightarrow> send (RenameFromCommand_execute f)) (\<lambda>_.
     (case RenameToCommand_new (Some (rename_to cmd)) of
        Inl e \<Rightarrow> reject e
      | Inr t \<Rightarrow> send (RenameToCommand_execute t)))"

text \<open>
  \<open>FtpClient.rename(from, to)\<close>: the command is constructed, then handed to \<open>send\<close>;
  an exception of the constructor rejects the call before \<open>send\<close> is entered.
\<close>

definition rename :: "string option \<Rightarrow> string option \<Rightarrow> unit promise" where
  "rename from_name to_name =
     (case RenameCommand_new from_name to_name of
        Inl e \<Rightarrow> reject e
      | Inr cmd \<Rightarrow> send (RenameCommand_execute cmd))"

text \<open>
  Two abbreviations for the statements about the probes and the login: the path that
  \<open>directoryExists\<close> changes to (the argument when it is absolute, else the argument
  joined to the current directory), and the feature set that the text of a FEAT reply
  advertises.
\<close>

definition probe_target :: "string \<Rightarrow> string \<Rightarrow> string" where
  "probe_target currentDir p = (if fspath_isAbsolute p then p else fspath_join currentDir p)"

definition advertised :: "string \<Rightarrow> FtpFeatures" where
  "advertised msg =
     \<lparr>MDTM = str_includes msg ''MDTM'', MFMT = str_includes msg ''MFMT'',
      MLSD = str_includes msg ''MLSD'', MLST = str_includes msg ''MLST'',
      SIZE = str_includes msg ''SIZE'', UTF8 = str_includes msg ''UTF8'',
      EPSV = str_includes msg ''EPSV''\<rparr>"

subsection \<open>MDTM\<close>

text \<open>
  The time value of a \<open>Date\<close> is the number of milliseconds since 1970-01-01T00:00:00
  UTC; \<open>None\<close> is the invalid date. \<open>DayFromYear\<close>, \<open>MakeDay\<close>, \<open>MakeTime\<close> and
  \<open>MakeDate\<close> are the operations of the language standard; \<open>month\<close> counts from 0
  (January), and a month beyond 11 carries into the year.
\<close>

definition DayFromYear :: "int \<Rightarrow> int" where
  "DayFromYear y =
     365 * (y - 1970) + (y - 1969) div 4 - (y - 1901) div 100 + (y - 1601) div 400"

definition InLeapYear :: "int \<Rightarrow> bool" where
  "InLeapYear y = (y mod 4 = 0 \<and> (y mod 400 = 0 \<or> y mod 100 \<noteq> 0))"

definition DaysBeforeMonth :: "bool \<Rightarrow> int \<Rightarrow> int" where
  "DaysBeforeMonth leap mn =
     [0, 31, 59, 90, 120, 151, 181, 212, 243, 273, 304, 334] ! nat (mn mod 12) +
     (if leap \<and> 2 \<le> mn mod 12 then 1 else 0)"

definition MakeDay :: "int \<Rightarrow> int \<Rightarrow> int \<Rightarrow> int" where
  "MakeDay year month date =
     (let ym = year + month div 12;
          mn = month mod 12
      in DayFromYear ym + DaysBeforeMonth (InLeapYear ym) mn + date - 1)"

definition MakeTime :: "int \<Rightarrow> int \<Rightarrow> int \<Rightarrow> int \<Rightarrow> int" where
  "MakeTime hour minute sec ms = hour * 3600000 + minute * 60000 + sec * 1000 + ms"

definition MakeDate :: "int \<Rightarrow> int \<Rightarrow> int" where
  "MakeDate day time = day * 86400000 + time"

text \<open>
  \<open>new Date(year, month, date, hours, minutes, seconds)\<close> reads its arguments as local
  time; a year from 0 to 99 means 1900 + year; a \<open>NaN\<close> argument gives the invalid
  date. The host's zone is a fixed offset here: \<open>tz\<close> is what \<open>getTimezoneOffset()\<close>
  returns, the minutes from local time to UTC, the same for every date.
\<close>

definition new_Date ::
  "int \<Rightarrow> int option \<Rightarrow> int option \<Rightarrow> int option \<Rightarrow> int option \<Rightarrow> int option \<Rightarrow> int option
     \<Rightarrow> int option" where
  "new_Date tz year month date hours minutes seconds =
     (case (year, month, date, hours, minutes, seconds) of
        (Some y, Some mo, Some d, Some h, Some mi, Some s) \<Rightarrow>
          (let yr = (if 0 \<le> y \<and> y \<le> 99 then 1900 + y else y)
           in Some (MakeDate (MakeDay yr mo d) (MakeTime h mi s 0) + tz * 60000))
      | _ \<Rightarrow> None)"

text \<open>
  \<open>RE_LAST_MOD_TIME = /^([0-9]{4})([0-9]{2})([0-9]{2})([0-9]{2})([0-9]{2})([0-9]{2})/gm\<close>.
  With the flag \<open>m\<close>, \<open>^\<close> holds at index 0 and after a line terminator. With the flag
  \<open>g\<close>, \<open>exec\<close> searches from \<open>lastIndex\<close> on and sets it: to the end of the match,
  or to 0 when there is none. The expression is a constant of the module, so
  \<open>lastIndex\<close> lives on between the calls. The result is the six groups and the new
  \<open>lastIndex\<close>.
\<close>

definition RE_LAST_MOD_TIME_at :: "string \<Rightarrow> nat \<Rightarrow> bool" where
  "RE_LAST_MOD_TIME_at s i =
     ((i = 0 \<or> s ! (i - 1) = CR \<or> s ! (i - 1) = LF) \<and>
      i + 14 \<le> length s \<and> list_all is_digit (take 14 (drop i s)))"

definition RE_LAST_MOD_TIME_exec ::
  "string \<Rightarrow> nat \<Rightarrow> (string \<times> string \<times> string \<times> string \<times> string \<times> string) option \<times> nat" where
  "RE_LAST_MOD_TIME_exec s li =
     (if length s < li then (None, 0)
      else
        (case find (RE_LAST_MOD_TIME_at s) [li ..< Suc (length s)] of
           None \<Rightarrow> (None, 0)
         | Some i \<Rightarrow>
             (Some (take 4 (drop i s), take 2 (drop (i + 4) s), take 2 (drop (i + 6) s),
                    take 2 (drop (i + 8) s), take 2 (drop (i + 10) s),
                    take 2 (drop (i + 12) s)),
              i + 14)))"

text \<open>
  \<open>LastModifiedTimeCommand\<close> resolves with a \<open>Date\<close>, given here by its time value.
  The groups go to the \<open>Date\<close> constructor as they are parsed, the month among them;
  the time zone offset of the date so built is then subtracted.
\<close>

definition LastModifiedTimeCommand_execute :: "int \<Rightarrow> string \<Rightarrow> int option promise" where
  "LastModifiedTimeCommand_execute tz path =
     await (\<lambda>c. if MDTM (features c)
                 then conn_write (''MDTM '' @ path) c
                 else reject (FtpException ''MDTM feature not avaible on FTP server'' None) c)
       (\<lambda>_.
     await getResponse (\<lambda>response.
       if code response = 550
       then reject (FtpFileNotFoundException
                      (''Cannot get modifitacion time for '' @ path) (Some 550))
       else if code response \<noteq> 213
       then reject (FromResponse
                      (''Cannot get last modification time of file '' @ path) response)
       else
         (\<lambda>c. case RE_LAST_MOD_TIME_exec (trim (message response)) (lastIndex c) of
                 (None, li) \<Rightarrow> (Inl TypeError, c\<lparr>lastIndex := li\<rparr>)
               | (Some (m1, m2, m3, m4, m5, m6), li) \<Rightarrow>
                   (Inr (case new_Date tz (parseInt m1) (parseInt m2) (parseInt m3)
                                 (parseInt m4) (parseInt m5) (parseInt m6) of
                           None \<Rightarrow> None
                         | Some t \<Rightarrow> Some (t - tz * 60 * 1000)),
                    c\<lparr>lastIndex := li\<rparr>))))"

definition getLastModificationTime :: "int \<Rightarrow> string \<Rightarrow> int option promise" where
  "getLastModificationTime tz path = send (LastModifiedTimeCommand_execute tz path)"

section \<open>The data connection\<close>

text \<open>
  Buffers are strings of bytes. \<open>Buffer.alloc(n)\<close> is zero-filled; \<open>new Buffer(n)\<close>
  is not initialised, and is taken as zero-filled too: \<open>readToEnd\<close> never reads a
  byte of it that it has not written. \<open>source.copy(target, targetStart, sourceStart,
  sourceEnd)\<close> writes as many bytes as the target has room for.
\<close>

definition Buffer_alloc :: "nat \<Rightarrow> string" where
  "Buffer_alloc n = replicate n (CHR 0x00)"

definition Buffer_copy :: "string \<Rightarrow> string \<Rightarrow> nat \<Rightarrow> nat \<Rightarrow> nat \<Rightarrow> string" where
  "Buffer_copy source target targetStart sourceStart sourceEnd =
     (let piece = take (length target - targetStart) (drop sourceStart (take sourceEnd source))
      in take targetStart target @ piece @ drop (targetStart + length piece) target)"

text \<open>
  The \<open>data\<close> handler of \<open>readToEnd\<close> on its variables \<open>marker\<close> and \<open>result\<close>: a
  chunk that does not fit makes the buffer twice as long, and the handler is done; a chunk
  that fits is copied in at \<open>marker\<close>.
\<close>

definition readToEnd_onData :: "nat \<times> string \<Rightarrow> string \<Rightarrow> nat \<times> string" where
  "readToEnd_onData st buffer =
     (case st of
        (marker, result) \<Rightarrow>
          if marker + length buffer > length result
          then (marker, Buffer_copy result (Buffer_alloc (length result * 2)) 0 0 marker)
          else (marker + length buffer, Buffer_copy buffer result marker 0 (length buffer)))"

text \<open>
  The \<open>end\<close> handler \<open>_onEnd\<close>: the first \<open>marker\<close> bytes of \<open>result\<close>, then
  \<open>this.dispose()\<close>, then the promise is resolved. \<open>_onEnd\<close> is a plain function
  registered on the socket, so the receiver of the call is the socket, which has no method
  \<open>dispose\<close>, and the call throws in the handler; in the compiled library the handler is
  an arrow function and the receiver is the data connection. The model takes the receiver
  as a parameter: \<open>receiverDisposes\<close> says whether \<open>this.dispose()\<close> returns. An
  exception thrown in the handler is given as the outcome of \<open>readToEnd\<close>, whose promise
  then never settles.
\<close>

definition readToEnd_onEnd :: "bool \<Rightarrow> bool \<Rightarrow> nat \<times> string \<Rightarrow> exn + string" where
  "readToEnd_onEnd receiverDisposes hadError st =
     (case st of
        (marker, result) \<Rightarrow>
          if hadError then Inl (FtpNetworkException ''Data socket error'')
          else
            (let finalBuffer = Buffer_copy result (Buffer_alloc marker) 0 0 marker
             in if receiverDisposes then Inr finalBuffer else Inl TypeError))"

text \<open>
  \<open>readToEnd()\<close> on a socket that delivers \<open>chunks\<close>, one \<open>data\<close> event each, and
  then ends; the \<open>end\<close> event carries no argument.
\<close>

definition readToEnd :: "bool \<Rightarrow> string list \<Rightarrow> exn + string" where
  "readToEnd receiverDisposes chunks =
     readToEnd_onEnd receiverDisposes False
       (foldl readToEnd_onData (0, Buffer_alloc 1024) chunks)"

record FtpDataConnection =
  dc_host :: string
  dc_port :: int
  dc_incoming :: "string list"

text \<open>\<open>RE_EPSV = /([\d]+)/\<close>: the first run of digits.\<close>

definition RE_EPSV_exec :: "string \<Rightarrow> string option" where
  "RE_EPSV_exec s =
     (let r = takeWhile is_digit (dropWhile (\<lambda>c. \<not> is_digit c) s)
      in if r = [] then None else Some r)"

text \<open>A number as a template literal prints it: its decimal digits, or \<open>NaN\<close>.\<close>

function decimal :: "nat \<Rightarrow> string \<Rightarrow> string" where
  "decimal n acc =
     (let acc' = char_of (n mod 10 + 48) # acc
      in if n div 10 = 0 then acc' else decimal (n div 10) acc')"
  by pat_completeness auto
termination
  by (relation "measure fst") auto

definition number_string :: "int option \<Rightarrow> string" where
  "number_string v =
     (case v of
        None \<Rightarrow> ''NaN''
      | Some n \<Rightarrow> if n < 0 then CHR ''-'' # decimal (nat (- n)) [] else decimal (nat n) [])"

text \<open>
  \<open>FtpPassiveModeCommand\<close>: \<open>EPSV\<close>, the port from the reply, a new data connection
  to the host of the command connection, and its \<open>connect()\<close>. The connection gets the
  next stream of \<open>dataStreams\<close>; with none left the connect fails.
\<close>

definition FtpPassiveModeCommand_execute :: "FtpDataConnection promise" where
  "FtpPassiveModeCommand_execute =
     await (conn_write ''EPSV'') (\<lambda>_.
     await getResponse (\<lambda>response.
       (case RE_EPSV_exec (message response) of
          None \<Rightarrow> reject TypeError
        | Some m0 \<Rightarrow>
            (\<lambda>c. let port = parseInt m0 in
               if length (host c) = 0
               then (Inl (FtpException ''You must provide host for data connection !'' None), c)
               else if (case port of None \<Rightarrow> False | Some n \<Rightarrow> n \<le> 0)
               then (Inl (FtpException ''You must provide port for data connection !'' None), c)
               else
                 (case dataStreams c of
                    [] \<Rightarrow>
                      (Inl (FtpNetworkException
                              (''Cannot connect to ftp data socket at: '' @ host c @ '':'' @
                                 number_string port)), c)
                  | s # ss \<Rightarrow>
                      (Inr \<lparr>dc_host = host c,
                            dc_port = (case port of None \<Rightarrow> 0 | Some n \<Rightarrow> n),
                            dc_incoming = s\<rparr>,
                       c\<lparr>dataStreams := ss\<rparr>))))))"

section \<open>Listings\<close>

text \<open>
  An entry of a listing is an object: its properties, each with a value. A string read
  from the data connection is kept as its bytes, with either encoding.
\<close>

datatype jsval = Undefined | Str string | Num "int option" | DateOf string

type_synonym FtpEntryInfo = "(string \<times> jsval) list"

fun obj_get :: "FtpEntryInfo \<Rightarrow> string \<Rightarrow> jsval" where
  "obj_get [] k = Undefined"
| "obj_get ((k', v) # ps) k = (if k' = k then v else obj_get ps k)"

fun obj_set :: "string \<Rightarrow> jsval \<Rightarrow> FtpEntryInfo \<Rightarrow> FtpEntryInfo" where
  "obj_set k v [] = [(k, v)]"
| "obj_set k v ((k', v') # ps) = (if k' = k then (k, v) # ps else (k', v') # obj_set k v ps)"

text \<open>\<open>entry[props[0].toLowerCase()] = props[1]\<close> for the fact \<open>r\<close>.\<close>

definition set_fact :: "FtpEntryInfo \<Rightarrow> string \<Rightarrow> FtpEntryInfo" where
  "set_fact entry r =
     (case split_char CHR ''='' r of
        [] \<Rightarrow> entry
      | [k] \<Rightarrow> obj_set (toLowerCase k) Undefined entry
      | k # v # _ \<Rightarrow> obj_set (toLowerCase k) (Str v) entry)"

text \<open>
  One line of an MLSD listing: the name is the last of the pieces between semicolons
  without its first character, the other pieces are facts; a \<open>size\<close> that is a string
  and not empty is parsed, a \<open>modify\<close> that is a string and not empty becomes the
  \<open>Date\<close> of the string \<open>YYYY-MM-DDTHH:MM:SS\<close> cut from it.
\<close>

definition mlsd_entry :: "string \<Rightarrow> FtpEntryInfo" where
  "mlsd_entry l =
     (let rows = split_char CHR '';'' l;
          entry0 = [(''name'', Str (drop 1 (if rows = [] then [] else last rows)))];
          entry1 = foldl set_fact entry0 (butlast rows);
          entry2 = (case obj_get entry1 ''size'' of
                      Str s \<Rightarrow> if s \<noteq> [] then obj_set ''size'' (Num (parseInt s)) entry1
                               else entry1
                    | _ \<Rightarrow> entry1)
      in (case obj_get entry2 ''modify'' of
            Str m \<Rightarrow>
              if m \<noteq> []
              then obj_set ''modify''
                     (DateOf (take 4 m @ ''-'' @ take 2 (drop 4 m) @ ''-'' @ take 2 (drop 6 m) @
                              ''T'' @ take 2 (drop 8 m) @ '':'' @ take 2 (drop 10 m) @ '':'' @
                              take 2 (drop 12 m)))
                     entry2
              else entry2
          | _ \<Rightarrow> entry2))"

text \<open>
  The lines of a listing, parsed as MLSD facts when the server has MLSD, else piece by
  piece with \<open>parseListLine\<close>. The parser of Unix listings is a parameter of the model
  (\<open>None\<close> is its \<open>undefined\<close>): the statements proved here hold for every such
  parser.
\<close>

definition parse_listing ::
  "bool \<Rightarrow> (string \<Rightarrow> FtpEntryInfo option) \<Rightarrow> string \<Rightarrow> FtpEntryInfo list" where
  "parse_listing mlsd parseListLine result =
     concat (map (\<lambda>l. if mlsd then [mlsd_entry l]
                       else List.map_filter parseListLine (split_char CHR '';'' l))
                 (filter (\<lambda>l. l \<noteq> []) (split_NEW_LINE result)))"

definition FtpListCommand_execute ::
  "bool \<Rightarrow> (string \<Rightarrow> FtpEntryInfo option) \<Rightarrow> string option
     \<Rightarrow> FtpEntryInfo list promise" where
  "FtpListCommand_execute receiverDisposes parseListLine path =
     (let p = (case path of
                 None \<Rightarrow> []
               | Some s \<Rightarrow> if s \<noteq> [] \<and> trim s \<noteq> [] then s else [])
      in
     await (send FtpPassiveModeCommand_execute) (\<lambda>psvConnection.
     await (\<lambda>c. if MLSD (features c) then conn_write (''MLSD '' @ p) c
                 else conn_write (''LIST '' @ p) c) (\<lambda>_.
     await getResponse (\<lambda>response.
       if code response \<noteq> 150
       then reject (FtpException ''Cannot get directory listing'' (Some (code response)))
       else
         await (\<lambda>c. (readToEnd receiverDisposes (dc_incoming psvConnection), c)) (\<lambda>result.
         (\<lambda>c. resolve (parse_listing (MLSD (features c)) parseListLine result) c))))))"

definition getFiles ::
  "bool \<Rightarrow> (string \<Rightarrow> FtpEntryInfo option) \<Rightarrow> string option
     \<Rightarrow> FtpEntryInfo list promise" where
  "getFiles receiverDisposes parseListLine path =
     await (send (FtpListCommand_execute receiverDisposes parseListLine path)) (\<lambda>files.
     resolve (filter (\<lambda>f. obj_get f ''type'' = Str ''file'') files))"

definition getDirectories ::
  "bool \<Rightarrow> (string \<Rightarrow> FtpEntryInfo option) \<Rightarrow> string option
     \<Rightarrow> FtpEntryInfo list promise" where
  "getDirectories receiverDisposes parseListLine path =
     await (send (FtpListCommand_execute receiverDisposes parseListLine path)) (\<lambda>files.
     resolve (filter (\<lambda>f. obj_get f ''type'' = Str ''dir'') files))"

section \<open>Deleting\<close>

definition DeleteFileCommand_execute :: "string \<Rightarrow> unit promise" where
  "DeleteFileCommand_execute path =
     await (conn_write (''DELE '' @ path)) (\<lambda>_.
     await getResponse (\<lambda>response.
       if code response = 550
       then reject (FtpFileNotFoundException (''File '' @ path @ '' not found on server'')
                      (Some (code response)))
       else if code response \<noteq> 250
       then reject (FtpException (''Cannot delete file '' @ path @ '' from server'')
                      (Some (code response)))
       else resolve ()))"

definition GoUpDirectoryCommand_execute :: "unit promise" where
  "GoUpDirectoryCommand_execute =
     await (conn_write ''CDUP'') (\<lambda>_.
     await getResponse (\<lambda>response.
       if code response \<ge> 400
       then reject (FtpException ''Cannot change directory'' None)
       else resolve ()))"

text \<open>
  The name of an entry where a string is built from it. A name is a string, or
  \<open>undefined\<close> after a fact called \<open>name\<close> without a value: only \<open>size\<close> and
  \<open>modify\<close> are ever converted.
\<close>

definition name_string :: "FtpEntryInfo \<Rightarrow> string" where
  "name_string f = (case obj_get f ''name'' of Str s \<Rightarrow> s | _ \<Rightarrow> ''undefined'')"

text \<open>\<open>for (let f of files) await connection.send(new DeleteFileCommand(f.name))\<close>.\<close>

fun delete_files :: "FtpEntryInfo list \<Rightarrow> unit promise" where
  "delete_files [] = resolve ()"
| "delete_files (f # fs) =
     await (send (DeleteFileCommand_execute (name_string f))) (\<lambda>_. delete_files fs)"

definition DeleteDirectoryCommand_execute ::
  "bool \<Rightarrow> (string \<Rightarrow> FtpEntryInfo option) \<Rightarrow> string option \<Rightarrow> unit promise" where
  "DeleteDirectoryCommand_execute receiverDisposes parseListLine path =
     await (send PwdCommand_execute) (\<lambda>cwd.
     await (send (CwdCommand_execute (or_undefined path))) (\<lambda>exists.
       if \<not> exists
       then reject (FtpDirectoryNotFoundException
                      (''Directory '' @ or_undefined path @ '' not found or on server'') None)
       else
     await (send (FtpListCommand_execute receiverDisposes parseListLine None)) (\<lambda>dirContent.
     await (delete_files (filter (\<lambda>f. obj_get f ''type'' = Str ''file'') dirContent)) (\<lambda>_.
     await (send GoUpDirectoryCommand_execute) (\<lambda>_.
     await (conn_write (''RMD '' @ or_undefined path)) (\<lambda>_.
     await getResponse (\<lambda>response.
       if code response \<ge> 400
       then reject (FromResponse ''Cannot delete directory'' response)
       else
     await (send (CwdCommand_execute (or_null cwd))) (\<lambda>_.
     resolve ()))))))))"

text \<open>
  \<open>FtpClient.deleteDirectory(path?, recursive?)\<close> and its local function \<open>rmDir\<close>.
  \<open>rmDir\<close> follows the listings of the server as deep as they go, so it takes fuel:
  \<open>None\<close> is a run that needs more. \<open>rmDir_each\<close> is the loop
  \<open>for (let d of dirListing) await rmDir(fspath.join(toRemove, d.name))\<close>; joining a
  name that is \<open>undefined\<close> throws. The call \<open>self.deleteDirectory(toRemove, false)\<close>
  that ends \<open>rmDir\<close> is the branch of \<open>deleteDirectory\<close> that is not recursive.
\<close>

fun rmDir ::
  "nat \<Rightarrow> bool \<Rightarrow> (string \<Rightarrow> FtpEntryInfo option) \<Rightarrow> string \<Rightarrow> FtpCommandConnection
     \<Rightarrow> ((exn + unit) \<times> FtpCommandConnection) option"
and rmDir_each ::
  "nat \<Rightarrow> bool \<Rightarrow> (string \<Rightarrow> FtpEntryInfo option) \<Rightarrow> string \<Rightarrow> FtpEntryInfo list
     \<Rightarrow> FtpCommandConnection \<Rightarrow> ((exn + unit) \<times> FtpCommandConnection) option" where
  "rmDir 0 receiverDisposes parseListLine toRemove c = None"
| "rmDir (Suc n) receiverDisposes parseListLine toRemove c =
     (case getDirectories receiverDisposes parseListLine (Some toRemove) c of
        (Inl e, c1) \<Rightarrow> Some (Inl e, c1)
      | (Inr dirListing, c1) \<Rightarrow>
          (case rmDir_each n receiverDisposes parseListLine toRemove dirListing c1 of
             None \<Rightarrow> None
           | Some (Inl e, c2) \<Rightarrow> Some (Inl e, c2)
           | Some (Inr u, c2) \<Rightarrow>
               Some (send (DeleteDirectoryCommand_execute receiverDisposes parseListLine
                             (Some toRemove)) c2)))"
| "rmDir_each n receiverDisposes parseListLine parent [] c = Some (Inr (), c)"
| "rmDir_each n receiverDisposes parseListLine parent (d # ds) c =
     (case obj_get d ''name'' of
        Str nm \<Rightarrow>
          (case rmDir n receiverDisposes parseListLine (fspath_join parent nm) c of
             None \<Rightarrow> None
           | Some (Inl e, c1) \<Rightarrow> Some (Inl e, c1)
           | Some (Inr u, c1) \<Rightarrow> rmDir_each n receiverDisposes parseListLine parent ds c1)
      | _ \<Rightarrow> Some (Inl TypeError, c))"

definition deleteDirectory ::
  "nat \<Rightarrow> bool \<Rightarrow> (string \<Rightarrow> FtpEntryInfo option) \<Rightarrow> string option \<Rightarrow> bool
     \<Rightarrow> FtpCommandConnection \<Rightarrow> ((exn + unit) \<times> FtpCommandConnection) option" where
  "deleteDirectory fuel receiverDisposes parseListLine path recursive c =
     (if \<not> recursive
      then Some (send (DeleteDirectoryCommand_execute receiverDisposes parseListLine path) c)
      else
        (case getDirectories receiverDisposes parseListLine path c of
           (Inl e, c1) \<Rightarrow> Some (Inl e, c1)
         | (Inr dirs, c1) \<Rightarrow>
             (case path of
                None \<Rightarrow> Some (Inl TypeError, c1)
              | Some p \<Rightarrow>
                  (case split_char fspath_sep p of
                     [] \<Rightarrow> Some (Inl TypeError, c1)
                   | rootDir # _ \<Rightarrow>
                       rmDir_each fuel receiverDisposes parseListLine rootDir dirs c1))))"

section \<open>Creating directories\<close>

text \<open>
  The commands below consume a reply whenever they resolve. The recursion of
  \<open>MkDirCommand\<close> terminates on that: every turn of its loop and every nested command
  starts after a reply was taken from the queue.
\<close>

lemma send_cong [fundef_cong]:
  "c = c' \<Longrightarrow> (sock c' = Established \<Longrightarrow> f c' = g c') \<Longrightarrow> send f c = send g c'"
  by (cases "sock c'") (simp_all add: send_def)

lemma CwdCommand_consumes:
  "send (CwdCommand_execute p) c = (Inr b, c1) \<Longrightarrow>
   length (responseQueue c1) < length (responseQueue c)"
  by (auto simp: send_def CwdCommand_execute_def await_def conn_write_def getResponse_def
      resolve_def split: if_splits list.splits)

text \<open>
  \<open>checkResponse()\<close>, the local function of \<open>MkDirCommand.execute\<close>. It is called
  without a receiver, so the \<open>this.path\<close> in the message of its exception is a read
  on \<open>undefined\<close>: a reply other than 257 ends in a \<open>TypeError\<close>.
\<close>

definition checkResponse :: "bool promise" where
  "checkResponse =
     await getResponse (\<lambda>response.
       if code response = 257 then resolve True else reject TypeError)"

text \<open>\<open>xs.pop()\<close> where a string is built from it.\<close>

definition pop_string :: "string list \<Rightarrow> string" where
  "pop_string xs = (if xs = [] then ''undefined'' else last xs)"

text \<open>\<open>MKD\<close> of the last segment of \<open>traverse\<close>, its check, and \<open>CWD\<close> into it.\<close>

definition make_and_enter :: "string \<Rightarrow> string \<Rightarrow> bool promise" where
  "make_and_enter cwdDir traverse =
     await (conn_write (''MKD '' @ pop_string (split_char CHR ''/'' traverse))) (\<lambda>_.
     await checkResponse (\<lambda>_.
     send (CwdCommand_execute (cwdDir @ traverse))))"

lemma make_and_enter_consumes:
  "make_and_enter cwdDir traverse c = (Inr b, c1) \<Longrightarrow>
   length (responseQueue c1) < length (responseQueue c)"
  by (auto simp: make_and_enter_def checkResponse_def send_def CwdCommand_execute_def await_def
      conn_write_def getResponse_def resolve_def reject_def split: if_splits list.splits)

text \<open>
  \<open>MkDirCommand.execute\<close> for a command built with \<open>path\<close>, \<open>recursive\<close> and
  \<open>cwdDir\<close>, and the \<open>while (true)\<close> loop of its recursive branch on the variables
  \<open>dirs\<close> and \<open>traverse\<close>. \<open>dirs.shift()\<close> of an empty array is \<open>undefined\<close>, which
  the concatenation prints.
\<close>

function MkDirCommand_execute ::
  "string \<Rightarrow> bool \<Rightarrow> string \<Rightarrow> FtpCommandConnection \<Rightarrow> (exn + unit) \<times> FtpCommandConnection"
and MkDirCommand_loop ::
  "string \<Rightarrow> string \<Rightarrow> string list \<Rightarrow> string \<Rightarrow> FtpCommandConnection
     \<Rightarrow> (exn + unit) \<times> FtpCommandConnection" where
  "MkDirCommand_execute path recursive cwdDir c =
     (case (if length cwdDir = 0 then send (CwdCommand_execute ''/'') c else (Inr True, c)) of
        (Inl e, c1) \<Rightarrow> (Inl e, c1)
      | (Inr atRoot, c1) \<Rightarrow>
          if \<not> recursive then
            await (send (CwdCommand_execute path)) (\<lambda>_.
            await (conn_write (''MKD '' @ pop_string (split_char CHR ''/'' path))) (\<lambda>_.
            await checkResponse (\<lambda>_. resolve ()))) c1
          else
            MkDirCommand_loop path cwdDir
              (filter (\<lambda>d. trim d \<noteq> []) (split_char CHR ''/'' path)) [] c1)"
| "MkDirCommand_loop path cwdDir dirs traverse c =
     (let traverse' = traverse @ ''/'' @ (case dirs of [] \<Rightarrow> ''undefined'' | d # ds \<Rightarrow> d);
          dirs' = tl dirs
      in case send (CwdCommand_execute (cwdDir @ traverse')) c of
           (Inl e, c1) \<Rightarrow> (Inl e, c1)
         | (Inr exists, c1) \<Rightarrow>
             if exists then MkDirCommand_loop path cwdDir dirs' traverse' c1
             else
               (case make_and_enter cwdDir traverse' c1 of
                  (Inl e, c2) \<Rightarrow> (Inl e, c2)
                | (Inr entered, c2) \<Rightarrow>
                    (let nextPath = drop (length traverse') path
                     in if length nextPath \<noteq> 0
                        then send (MkDirCommand_execute nextPath True (cwdDir @ traverse')) c2
                        else (Inr (), c2))))"
  by pat_completeness auto
termination
proof (relation "measure (\<lambda>x. case x of
          Inl (path, recursive, cwdDir, c) \<Rightarrow> 2 * length (responseQueue c) + 1
        | Inr (path, cwdDir, dirs, traverse, c) \<Rightarrow> 2 * length (responseQueue c))")
  show "wf (measure (\<lambda>x. case x of
          Inl (path, recursive, cwdDir, c) \<Rightarrow> 2 * length (responseQueue c) + 1
        | Inr (path, cwdDir, dirs, traverse, c) \<Rightarrow> 2 * length (responseQueue c)))"
    by simp
next
  fix path :: string and recursive :: bool and cwdDir :: string
    and c c1 :: FtpCommandConnection and x :: "exn + bool" and atRoot :: bool
  assume "(x, c1) = (if length cwdDir = 0 then send (CwdCommand_execute ''/'') c else (Inr True, c))"
    and "x = Inr atRoot"
  then have "length (responseQueue c1) \<le> length (responseQueue c)"
    using CwdCommand_consumes [of "''/''" c atRoot c1] by (auto split: if_splits)
  then show "(Inr (path, cwdDir, filter (\<lambda>d. trim d \<noteq> []) (split_char CHR ''/'' path), [], c1),
              Inl (path, recursive, cwdDir, c))
             \<in> measure (\<lambda>x. case x of
                  Inl (path, recursive, cwdDir, c) \<Rightarrow> 2 * length (responseQueue c) + 1
                | Inr (path, cwdDir, dirs, traverse, c) \<Rightarrow> 2 * length (responseQueue c))"
    by simp
next
  fix path cwdDir :: string and dirs :: "string list" and traverse :: string
    and c c1 :: FtpCommandConnection and x :: "exn + bool" and x2 :: bool
    and xa :: string and xb :: "string list"
  assume "(x, c1) = send (CwdCommand_execute (cwdDir @ xa)) c" and "x = Inr x2"
  then have "length (responseQueue c1) < length (responseQueue c)"
    using CwdCommand_consumes [of "cwdDir @ xa" c x2 c1] by simp
  then show "(Inr (path, cwdDir, xb, xa, c1), Inr (path, cwdDir, dirs, traverse, c))
             \<in> measure (\<lambda>x. case x of
                  Inl (path, recursive, cwdDir, c) \<Rightarrow> 2 * length (responseQueue c) + 1
                | Inr (path, cwdDir, dirs, traverse, c) \<Rightarrow> 2 * length (responseQueue c))"
    by simp
next
  fix path cwdDir :: string and dirs :: "string list" and traverse :: string
    and c c1 c2 :: FtpCommandConnection and x xd :: "exn + bool" and x2 x2a :: bool
    and xa xg :: string
  assume "(x, c1) = send (CwdCommand_execute (cwdDir @ xa)) c" and "x = Inr x2"
    and "(xd, c2) = make_and_enter cwdDir xa c1" and "xd = Inr x2a"
  then have "length (responseQueue c1) < length (responseQueue c)"
    and "length (responseQueue c2) < length (responseQueue c1)"
    using CwdCommand_consumes [of "cwdDir @ xa" c x2 c1]
      make_and_enter_consumes [of cwdDir xa c1 x2a c2] by simp_all
  then show "(Inl (xg, True, cwdDir @ xa, c2), Inr (path, cwdDir, dirs, traverse, c))
             \<in> measure (\<lambda>x. case x of
                  Inl (path, recursive, cwdDir, c) \<Rightarrow> 2 * length (responseQueue c) + 1
                | Inr (path, cwdDir, dirs, traverse, c) \<Rightarrow> 2 * length (responseQueue c))"
    by simp
qed

text \<open>\<open>FtpClient.createDir(path, recursive?)\<close>.\<close>

definition createDir :: "string \<Rightarrow> bool \<Rightarrow> unit promise" where
  "createDir path recursive =
     (if length path = 0 then reject (FtpException ''Path cannot be empty'' None)
      else send (MkDirCommand_execute path recursive []))"

section \<open>Properties of the reply parser\<close>

lemma split_NEW_LINE_not_Nil: "split_NEW_LINE s \<noteq> []"
  by (induction s rule: split_NEW_LINE.induct) (auto split: list.splits)

text \<open>
  CR LF does not overlap itself, so a CR LF between two strings is a separator of their
  concatenation and splits nothing else.
\<close>

lemma split_NEW_LINE_append:
  "split_NEW_LINE (x @ NEW_LINE @ y) = split_NEW_LINE x @ split_NEW_LINE y"
proof (induction x rule: split_NEW_LINE.induct)
  case 1
  show ?case by (simp add: NEW_LINE_def)
next
  case (2 c)
  show ?case by (simp add: NEW_LINE_def)
next
  case (3 c d cs)
  show ?case
  proof (cases "c = CR \<and> d = LF")
    case True
    with 3 show ?thesis by simp
  next
    case False
    obtain l ls where s: "split_NEW_LINE (d # cs) = l # ls"
      using split_NEW_LINE_not_Nil [of "d # cs"] by (cases "split_NEW_LINE (d # cs)") auto
    from False 3 have "split_NEW_LINE ((d # cs) @ NEW_LINE @ y) = (l # ls) @ split_NEW_LINE y"
      using s by simp
    with False s show ?thesis by auto
  qed
qed

lemma trim_Nil: "trim [] = []"
  by (simp add: trim_def)

lemma trim_nonblank_not_Nil: "trim l \<noteq> [] \<Longrightarrow> l \<noteq> []"
  by (auto simp: trim_def)

lemma lines_not_Nil: "\<forall>l \<in> set (filter (\<lambda>l. trim l \<noteq> []) xs). l \<noteq> []"
  by (auto dest: trim_nonblank_not_Nil)

lemma lines_snoc_NEW_LINE:
  "filter (\<lambda>l. trim l \<noteq> []) (split_NEW_LINE (x @ NEW_LINE)) =
   filter (\<lambda>l. trim l \<noteq> []) (split_NEW_LINE x)"
  using split_NEW_LINE_append [of x "[]"] by (simp add: trim_Nil)

lemma lines_append:
  "filter (\<lambda>l. trim l \<noteq> []) (split_NEW_LINE (x @ NEW_LINE @ y)) =
   filter (\<lambda>l. trim l \<noteq> []) (split_NEW_LINE (x @ NEW_LINE)) @
   filter (\<lambda>l. trim l \<noteq> []) (split_NEW_LINE y)"
  using split_NEW_LINE_append [of x y] by (simp add: lines_snoc_NEW_LINE)

subsection \<open>The regular expression never fails on a line the parser keeps\<close>

lemma dot_plus_Some: "dot c \<Longrightarrow> dot_plus (c # cs) = Some (c # takeWhile dot cs)"
  by (simp add: dot_plus_def)

lemma RE_CMD_LINE_alt2_not_None:
  assumes "trim l \<noteq> []"
  shows "RE_CMD_LINE_alt2 l \<noteq> None"
proof -
  from assms have "\<exists>c \<in> set l. \<not> is_space c"
    by (auto simp: trim_def dropWhile_eq_Nil_conv dest: set_dropWhileD)
  then have "\<exists>c \<in> set l. dot c"
    by (auto simp: is_space_def dot_def)
  then have "dropWhile (\<lambda>c. \<not> dot c) l \<noteq> []"
    by (auto simp: dropWhile_eq_Nil_conv)
  then obtain c cs where dw: "dropWhile (\<lambda>c. \<not> dot c) l = c # cs"
    by (cases "dropWhile (\<lambda>c. \<not> dot c) l") auto
  then have "dot c" using hd_dropWhile [of "\<lambda>c. \<not> dot c" l] by auto
  with dw show ?thesis by (simp add: RE_CMD_LINE_alt2_def dot_plus_Some)
qed

lemma RE_CMD_LINE_exec_not_None:
  "trim l \<noteq> [] \<Longrightarrow> RE_CMD_LINE_exec l \<noteq> None"
  using RE_CMD_LINE_alt2_not_None [of l]
  by (auto simp: RE_CMD_LINE_exec_def split: option.splits)

lemma RE_CMD_LINE_alt2_eq:
  assumes "trim l \<noteq> []"
  shows "RE_CMD_LINE_alt2 l =
    Some \<lparr>g3 = None, g4 = None, g6 = None,
          g7 = Some (takeWhile dot (dropWhile (\<lambda>c. \<not> dot c) l))\<rparr>"
  using RE_CMD_LINE_alt2_not_None [OF assms]
  by (auto simp: RE_CMD_LINE_alt2_def dot_plus_def Let_def split: option.splits if_splits)

lemma RE_CMD_LINE_alt1_closes:
  "closes_reply l \<Longrightarrow>
   RE_CMD_LINE_alt1 l =
     Some \<lparr>g3 = Some (take 3 l), g4 = None, g6 = Some (takeWhile dot (drop 4 l)), g7 = None\<rparr>"
  by (cases l rule: closes_reply.cases) (auto simp: dot_plus_def)

lemma RE_CMD_LINE_alt1_continues:
  "continues_reply l \<Longrightarrow>
   RE_CMD_LINE_alt1 l =
     Some \<lparr>g3 = None, g4 = Some (take 3 l), g6 = Some (takeWhile dot (drop 4 l)), g7 = None\<rparr>"
  by (cases l rule: continues_reply.cases) (auto simp: dot_plus_def)

lemma RE_CMD_LINE_alt1_None:
  "\<not> closes_reply l \<Longrightarrow> \<not> continues_reply l \<Longrightarrow> RE_CMD_LINE_alt1 l = None"
  by (cases l rule: closes_reply.cases) (auto simp: dot_plus_def)

lemma closes_not_continues: "closes_reply l \<Longrightarrow> \<not> continues_reply l"
  by (cases l rule: closes_reply.cases) auto

lemma is_digit_not_space:
  "is_digit d \<Longrightarrow> \<not> is_space d \<and> d \<noteq> CHR ''-'' \<and> d \<noteq> CHR ''+''"
  by (auto simp: is_digit_def is_space_def)

lemma parseInt10_three_digits:
  assumes "is_digit d1" "is_digit d2" "is_digit d3"
  shows "parseInt10 [d1, d2, d3] =
    Some (100 * digit_val d1 + 10 * digit_val d2 + digit_val d3)"
  using assms is_digit_not_space [of d1]
  by (simp add: parseInt10_def strip_sign_def)

subsection \<open>C1: which lines close a reply\<close>

text \<open>
  C1, as the code has it. The parser keeps the text of the open reply and nothing else:
  no code is remembered. For every line it processes (a line of a chunk that is not blank),
  and whatever the command buffer holds, the reply is closed and emitted exactly when the
  line starts with three digits, a character other than \<open>-\<close> and one more character that
  is no line terminator; the reply then carries the code of this very line and the
  buffered text followed by the line's text after its fourth character. Every other line
  emits nothing and adds its text to the command buffer.
\<close>

theorem reply_closed_by_any_code_line:
  assumes "trim l \<noteq> []"
  shows "parseResponse_loop (l # rest) cb resp =
    (if closes_reply l
     then parseResponse_loop rest []
            (resp @ [\<lparr>code = code_of (take 3 l),
                       message = cb @ takeWhile dot (drop 4 l) @ NEW_LINE\<rparr>])
     else parseResponse_loop rest (cb @ appended_text l @ NEW_LINE) resp)"
proof -
  have ne: "l \<noteq> []" using assms by (rule trim_nonblank_not_Nil)
  consider (closes) "closes_reply l" | (continues) "continues_reply l"
    | (other) "\<not> closes_reply l" "\<not> continues_reply l" by blast
  then show ?thesis
  proof cases
    case closes
    then show ?thesis
      using ne by (simp add: RE_CMD_LINE_exec_def RE_CMD_LINE_alt1_closes)
  next
    case continues
    then have "\<not> closes_reply l" using closes_not_continues by blast
    with continues show ?thesis
      using ne by (simp add: RE_CMD_LINE_exec_def RE_CMD_LINE_alt1_continues appended_text_def)
  next
    case other
    then show ?thesis
      using ne by (simp add: RE_CMD_LINE_exec_def RE_CMD_LINE_alt1_None
          RE_CMD_LINE_alt2_eq [OF assms] appended_text_def)
  qed
qed

text \<open>
  The theorem at the line \<open>220 other\<close>, met while the text of a reply opened by
  \<open>211-Features\<close> is buffered.
\<close>

theorem reply_closed_by_any_code_line_witness:
  "trim ''220 other'' \<noteq> [] \<and>
   parseResponse_loop [''220 other''] (''Features'' @ NEW_LINE) [] =
     Inr ([], [], [\<lparr>code = 220, message = ''Features'' @ NEW_LINE @ ''other'' @ NEW_LINE\<rparr>])"
proof -
  have h: "trim ''220 other'' \<noteq> []" by (simp add: trim_def is_space_def)
  show ?thesis
    using h reply_closed_by_any_code_line [OF h, of "[]" "''Features'' @ NEW_LINE" "[]"]
    by (simp add: is_digit_def dot_def code_of_def parseInt10_def strip_sign_def
        digit_val_def is_space_def)
qed

text \<open>
  C1 as stated fails: a reply opened with code 211 is closed by a line that carries the
  code 220, and the emitted reply has the code 220.
\<close>

theorem reply_closed_by_other_code_counterexample:
  "parseResponse (''211-Features'' @ NEW_LINE @ ''220 other'' @ NEW_LINE) new_connection =
     Inr ([\<lparr>code = 220, message = ''Features'' @ NEW_LINE @ ''other'' @ NEW_LINE\<rparr>],
          new_connection)"
  by (simp add: parseResponse_def new_connection_def NEW_LINE_def trim_def is_space_def
      RE_CMD_LINE_exec_def is_digit_def dot_plus_def dot_def code_of_def parseInt10_def
      strip_sign_def digit_val_def RE_CMD_LINE_alt2_def)

subsection \<open>C2: packet boundaries\<close>

lemma parseResponse_loop_append:
  "\<forall>l \<in> set ls1. l \<noteq> [] \<Longrightarrow>
   parseResponse_loop (ls1 @ ls2) cb resp =
     (case parseResponse_loop ls1 cb resp of
        Inl e \<Rightarrow> Inl e
      | Inr (rb, cb', resp') \<Rightarrow> parseResponse_loop ls2 cb' resp')"
proof (induction ls1 arbitrary: cb resp)
  case Nil
  show ?case by simp
next
  case (Cons l ls1)
  then show ?case
    by (simp add: Let_def split: option.splits)
qed

lemma parseResponse_loop_acc:
  "parseResponse_loop ls cb (r0 @ resp) =
     (case parseResponse_loop ls cb resp of
        Inl e \<Rightarrow> Inl e
      | Inr (rb, cb', resp') \<Rightarrow> Inr (rb, cb', r0 @ resp'))"
proof (induction ls arbitrary: cb resp)
  case Nil
  show ?case by simp
next
  case (Cons l ls)
  show ?case
    using Cons.IH [of "[]" "resp @ [x]" for x] Cons.IH [of _ resp]
    by (simp add: Let_def split: option.splits)
qed

lemma parseResponse_loop_drains:
  "\<forall>l \<in> set ls. l \<noteq> [] \<Longrightarrow>
   parseResponse_loop ls cb resp = Inr (rb, cb', resp') \<Longrightarrow> rb = []"
proof (induction ls arbitrary: cb resp)
  case Nil
  then show ?case by simp
next
  case (Cons l ls)
  then show ?case
    by (auto simp: Let_def split: option.splits if_splits)
qed

lemma onData_append:
  assumes "responseBuffer c = []"
  shows "onData ((x @ NEW_LINE) @ y) c =
     (case onData (x @ NEW_LINE) c of Inl e \<Rightarrow> Inl e | Inr c' \<Rightarrow> onData y c')"
proof -
  let ?l1 = "filter (\<lambda>l. trim l \<noteq> []) (split_NEW_LINE (x @ NEW_LINE))"
  let ?l2 = "filter (\<lambda>l. trim l \<noteq> []) (split_NEW_LINE y)"
  have ne: "\<forall>l \<in> set ?l1. l \<noteq> []" by (rule lines_not_Nil)
  have app: "parseResponse_loop (?l1 @ ?l2) (commandBuffer c) [] =
     (case parseResponse_loop ?l1 (commandBuffer c) [] of
        Inl e \<Rightarrow> Inl e
      | Inr (rb, cb', resp') \<Rightarrow> parseResponse_loop ?l2 cb' resp')"
    using parseResponse_loop_append [OF ne] .
  show ?thesis
  proof (cases "parseResponse_loop ?l1 (commandBuffer c) []")
    case (Inl e)
    with app assms show ?thesis
      by (simp add: onData_def parseResponse_def lines_append)
  next
    case (Inr r)
    obtain rb cb' resp' where r: "r = (rb, cb', resp')" by (cases r) auto
    have rb: "rb = []" using parseResponse_loop_drains [OF ne] Inr r by blast
    have acc: "parseResponse_loop ?l2 cb' resp' =
      (case parseResponse_loop ?l2 cb' [] of
        Inl e \<Rightarrow> Inl e
      | Inr (rb2, cb2, resp2) \<Rightarrow> Inr (rb2, cb2, resp' @ resp2))"
      using parseResponse_loop_acc [of ?l2 cb' resp' "[]"] by simp
    from app Inr r rb acc assms show ?thesis
      by (simp add: onData_def parseResponse_def lines_append split: sum.splits prod.splits)
  qed
qed

lemma onData_responseBuffer:
  assumes "responseBuffer c = []" "onData d c = Inr c'"
  shows "responseBuffer c' = []"
proof -
  let ?l = "filter (\<lambda>l. trim l \<noteq> []) (split_NEW_LINE d)"
  have ne: "\<forall>l \<in> set ?l. l \<noteq> []" by (rule lines_not_Nil)
  from assms show ?thesis
    using parseResponse_loop_drains [OF ne]
    by (auto simp: onData_def parseResponse_def split: sum.splits prod.splits)
qed

lemma onData_Nil: "responseBuffer c = [] \<Longrightarrow> onData [] c = Inr c"
  by (simp add: onData_def parseResponse_def trim_def)

text \<open>
  C2, as the code has it. The parser splits each chunk into lines on its own and keeps no
  bytes of an unfinished line for the next chunk. So the replies are those of the whole
  stream when every chunk ends with CR LF, that is, when the stream is cut only right
  after line ends: the connection (queue of replies and command buffer) after the
  \<open>data\<close> events of the chunks is the one after a single event with their concatenation.
\<close>

theorem packet_boundaries_after_NEW_LINE:
  assumes "responseBuffer c = []"
    and "\<forall>d \<in> set chunks. \<exists>x. d = x @ NEW_LINE"
  shows "onData_all chunks c = onData (concat chunks) c"
  using assms
proof (induction chunks arbitrary: c)
  case Nil
  then show ?case by (simp add: onData_Nil)
next
  case (Cons d ds)
  then obtain x where d: "d = x @ NEW_LINE" by auto
  have step: "onData (d @ concat ds) c =
     (case onData d c of Inl e \<Rightarrow> Inl e | Inr c' \<Rightarrow> onData (concat ds) c')"
    unfolding d using Cons.prems(1) by (rule onData_append)
  show ?case
  proof (cases "onData d c")
    case (Inl e)
    with step show ?thesis by simp
  next
    case (Inr c')
    have "responseBuffer c' = []"
      using Cons.prems(1) Inr by (rule onData_responseBuffer)
    with Cons Inr step show ?thesis by simp
  qed
qed

text \<open>The theorem at a stream of two replies, cut after the first line.\<close>

theorem packet_boundaries_after_NEW_LINE_witness:
  "onData_all [''220 hello'' @ NEW_LINE, ''331 pass'' @ NEW_LINE] new_connection =
   onData (concat [''220 hello'' @ NEW_LINE, ''331 pass'' @ NEW_LINE]) new_connection"
  using packet_boundaries_after_NEW_LINE
    [of new_connection "[''220 hello'' @ NEW_LINE, ''331 pass'' @ NEW_LINE]"]
  by (simp add: new_connection_def)

text \<open>
  C2 as stated fails: the stream \<open>220 hello\<close> CR LF cut inside the line gives the reply
  \<open>220 he\<close> and leaves \<open>llo\<close> in the command buffer, where one chunk gives the
  reply \<open>220 hello\<close>.
\<close>

theorem packet_boundary_inside_line_counterexample:
  "onData_all [''220 he'', ''llo'' @ NEW_LINE] new_connection =
     Inr (new_connection\<lparr>commandBuffer := ''llo'' @ NEW_LINE,
            responseQueue := [\<lparr>code = 220, message = ''he'' @ NEW_LINE\<rparr>]\<rparr>) \<and>
   onData (concat [''220 he'', ''llo'' @ NEW_LINE]) new_connection =
     Inr (new_connection\<lparr>responseQueue := [\<lparr>code = 220, message = ''hello'' @ NEW_LINE\<rparr>]\<rparr>) \<and>
   onData_all [''220 he'', ''llo'' @ NEW_LINE] new_connection \<noteq>
     onData (concat [''220 he'', ''llo'' @ NEW_LINE]) new_connection"
  by (simp add: parseResponse_def onData_def new_connection_def NEW_LINE_def trim_def
      is_space_def RE_CMD_LINE_exec_def is_digit_def dot_plus_def dot_def code_of_def
      parseInt10_def strip_sign_def digit_val_def RE_CMD_LINE_alt2_def)

section \<open>Properties of the commands\<close>

lemmas monad_defs = await_def resolve_def reject_def conn_write_def getResponse_def send_def

subsection \<open>C5: file_exists\<close>

text \<open>
  C5. \<open>fileExists\<close> resolves with \<open>false\<close> exactly when \<open>getFileSize\<close> (the SIZE
  command) rejects with a \<open>FtpFileNotFoundException\<close>; it resolves with \<open>true\<close> when the
  SIZE command resolves; every other exception of the SIZE command is thrown on
  unchanged; \<open>fileExists\<close> never rejects with a \<open>FtpFileNotFoundException\<close>; and it
  leaves the connection as the SIZE command leaves it. On a connected socket of a server
  with the SIZE feature, a reply 550 gives \<open>false\<close>, a reply 213 gives \<open>true\<close>, and any
  other reply gives the \<open>FtpException\<close> that carries the reply's code.
\<close>

theorem fileExists_error_mapping:
  "(fst (fileExists p c) = Inr False \<longleftrightarrow>
      (\<exists>m k. fst (getFileSize p c) = Inl (FtpFileNotFoundException m k))) \<and>
   ((\<exists>n. fst (getFileSize p c) = Inr n) \<longrightarrow> fst (fileExists p c) = Inr True) \<and>
   (\<forall>e. fst (getFileSize p c) = Inl e \<and> (\<forall>m k. e \<noteq> FtpFileNotFoundException m k) \<longrightarrow>
        fst (fileExists p c) = Inl e) \<and>
   (\<forall>m k. fst (fileExists p c) \<noteq> Inl (FtpFileNotFoundException m k)) \<and>
   snd (fileExists p c) = snd (getFileSize p c) \<and>
   (\<forall>r rs. sock c = Established \<and> SIZE (features c) \<and> responseQueue c = r # rs \<longrightarrow>
      fileExists p c =
        (if code r = 550 then Inr False
         else if code r = 213 then Inr True
         else Inl (FtpException (''Cannot retrieve file '' @ p @ '' size'') (Some (code r))),
         c\<lparr>written := written c @ [''SIZE '' @ p], responseQueue := rs\<rparr>))"
proof -
  obtain res c' where g: "getFileSize p c = (res, c')"
    by (cases "getFileSize p c") auto
  have a: "fst (fileExists p c) = Inr False \<longleftrightarrow>
      (\<exists>m k. fst (getFileSize p c) = Inl (FtpFileNotFoundException m k))"
    using g by (auto simp: fileExists_def split: sum.splits exn.splits)
  have b: "(\<exists>n. fst (getFileSize p c) = Inr n) \<longrightarrow> fst (fileExists p c) = Inr True"
    using g by (auto simp: fileExists_def split: sum.splits exn.splits)
  have c: "\<forall>e. fst (getFileSize p c) = Inl e \<and> (\<forall>m k. e \<noteq> FtpFileNotFoundException m k) \<longrightarrow>
        fst (fileExists p c) = Inl e"
    using g by (auto simp: fileExists_def split: sum.splits exn.splits)
  have d: "\<forall>m k. fst (fileExists p c) \<noteq> Inl (FtpFileNotFoundException m k)"
    using g by (auto simp: fileExists_def split: sum.splits exn.splits)
  have e: "snd (fileExists p c) = snd (getFileSize p c)"
    using g by (auto simp: fileExists_def split: sum.splits exn.splits)
  have f: "\<forall>r rs. sock c = Established \<and> SIZE (features c) \<and> responseQueue c = r # rs \<longrightarrow>
      fileExists p c =
        (if code r = 550 then Inr False
         else if code r = 213 then Inr True
         else Inl (FtpException (''Cannot retrieve file '' @ p @ '' size'') (Some (code r))),
         c\<lparr>written := written c @ [''SIZE '' @ p], responseQueue := rs\<rparr>)"
    by (simp add: fileExists_def getFileSize_def SizeCommand_execute_def FromResponse_def
        monad_defs)
  from a b c d e f show ?thesis by blast
qed

text \<open>
  The theorem on the replies of the repository's tests: \<open>550 File not found\<close> gives
  \<open>false\<close>, and \<open>500 Unknown error\<close> is thrown on as the exception of the SIZE command.
\<close>

theorem fileExists_error_mapping_witness:
  "fileExists ''/someFile.txt''
     (new_connection\<lparr>features := (features new_connection)\<lparr>SIZE := True\<rparr>,
        responseQueue := [\<lparr>code = 550, message = ''File not found'' @ NEW_LINE\<rparr>]\<rparr>) =
     (Inr False,
      new_connection\<lparr>features := (features new_connection)\<lparr>SIZE := True\<rparr>,
        written := [''SIZE /someFile.txt'']\<rparr>) \<and>
   fst (fileExists ''/someFile.txt''
     (new_connection\<lparr>features := (features new_connection)\<lparr>SIZE := True\<rparr>,
        responseQueue := [\<lparr>code = 500, message = ''Unknown error'' @ NEW_LINE\<rparr>]\<rparr>)) =
     Inl (FtpException ''Cannot retrieve file /someFile.txt size'' (Some 500))"
proof -
  let ?c = "\<lambda>n msg. new_connection\<lparr>features := (features new_connection)\<lparr>SIZE := True\<rparr>,
        responseQueue := [\<lparr>code = n, message = msg\<rparr>]\<rparr>"
  have t: "sock (?c n msg) = Established \<and> SIZE (features (?c n msg)) \<and>
      responseQueue (?c n msg) = \<lparr>code = n, message = msg\<rparr> # []" for n msg
    by (simp add: new_connection_def)
  have "fileExists ''/someFile.txt'' (?c n msg) =
        (if code \<lparr>code = n, message = msg\<rparr> = 550 then Inr False
         else if code \<lparr>code = n, message = msg\<rparr> = 213 then Inr True
         else Inl (FtpException (''Cannot retrieve file '' @ ''/someFile.txt'' @ '' size'')
                    (Some (code \<lparr>code = n, message = msg\<rparr>))),
         (?c n msg)\<lparr>written := written (?c n msg) @ [''SIZE '' @ ''/someFile.txt''],
            responseQueue := []\<rparr>)" for n msg
    using fileExists_error_mapping [of "''/someFile.txt''" "?c n msg"] t [of n msg] by blast
  from this [of 550] this [of 500] show ?thesis
    by (simp add: new_connection_def)
qed

subsection \<open>C6: directory_exists\<close>

lemma find_Some_mem: "find P xs = Some x \<Longrightarrow> x \<in> set xs \<and> P x"
  by (induction xs) (auto split: if_splits)

lemma RE_PWD_at_not_Nil:
  assumes "RE_PWD_at t = Some g"
  shows "g \<noteq> []"
proof -
  from assms obtain k
    where k: "find (RE_PWD_group t) (rev [1 ..< Suc (length (takeWhile dot t))]) = Some k"
      and g: "g = take k t"
    by (auto simp: RE_PWD_at_def split: option.splits)
  from find_Some_mem [OF k] have "1 \<le> k" "k < length t"
    by (auto simp: RE_PWD_group_def)
  with g show ?thesis by (cases t) auto
qed

lemma RE_PWD_exec_not_Nil: "RE_PWD_exec s = Some g \<Longrightarrow> g \<noteq> []"
  by (induction s) (auto split: if_splits option.splits dest: RE_PWD_at_not_Nil)

lemmas dir_defs = directoryExists_def getCurrentDirectory_def setCurrentDirectory_def
  PwdCommand_execute_def CwdCommand_execute_def or_null_def

lemma directoryExists_probe_answered:
  assumes "sock c = Established" "responseQueue c = r1 # r2 # r3 # rest" "code r1 < 300"
    "RE_PWD_exec (message r1) = Some d"
  shows "directoryExists (Some p) c =
     (Inr (code r2 < 300),
      c\<lparr>written := written c @ [''PWD'', ''CWD '' @ probe_target d p, ''CWD '' @ d],
        responseQueue := rest\<rparr>)"
  using assms RE_PWD_exec_not_Nil [OF assms(4)]
  by (simp add: dir_defs monad_defs probe_target_def)

lemma directoryExists_probe_timeout:
  assumes "sock c = Established" "responseQueue c = [r1]" "code r1 < 300"
    "RE_PWD_exec (message r1) = Some d"
  shows "directoryExists (Some p) c =
     (Inl (FtpTimeoutException ''Command response timeout''),
      c\<lparr>written := written c @ [''PWD'', ''CWD '' @ probe_target d p],
        responseQueue := []\<rparr>)"
  using assms RE_PWD_exec_not_Nil [OF assms(4)]
  by (simp add: dir_defs monad_defs probe_target_def)

text \<open>
  C6, as the code has it. On a connected socket, when the reply to PWD has a code below
  300 and names the directory \<open>d\<close>: if the probe is answered (with any code), the
  client next sends \<open>CWD d\<close>, takes one more reply without looking at it, and resolves
  with whether the probe's code was below 300, so the lines sent are \<open>PWD\<close>, the probing
  \<open>CWD\<close> and the restoring \<open>CWD\<close>. If the probe gets no reply in time, its rejection
  is thrown on and no restoring \<open>CWD\<close> is sent: the restore is not in a \<open>finally\<close>.
\<close>

theorem directoryExists_restores_after_answered_probe:
  "(\<forall>r1 r2 r3 rest d.
      sock c = Established \<and> responseQueue c = r1 # r2 # r3 # rest \<and> code r1 < 300 \<and>
      RE_PWD_exec (message r1) = Some d \<longrightarrow>
      directoryExists (Some p) c =
        (Inr (code r2 < 300),
         c\<lparr>written := written c @ [''PWD'', ''CWD '' @ probe_target d p, ''CWD '' @ d],
           responseQueue := rest\<rparr>)) \<and>
   (\<forall>r1 d.
      sock c = Established \<and> responseQueue c = [r1] \<and> code r1 < 300 \<and>
      RE_PWD_exec (message r1) = Some d \<longrightarrow>
      directoryExists (Some p) c =
        (Inl (FtpTimeoutException ''Command response timeout''),
         c\<lparr>written := written c @ [''PWD'', ''CWD '' @ probe_target d p],
           responseQueue := []\<rparr>))"
  using directoryExists_probe_answered [of c _ _ _ _ _ p]
    directoryExists_probe_timeout [of c _ _ p]
  by blast

lemma RE_PWD_exec_root:
  "RE_PWD_exec (CHR 0x22 # CHR ''/'' # CHR 0x22 # '' is current directory.'') = Some ''/''"
  by (simp add: RE_PWD_at_def RE_PWD_group_def dot_def)

text \<open>
  The theorem on the replies of the repository's test of a directory that does not
  exist: \<open>257 "/" is current directory.\<close>, \<open>550\<close> for \<open>CWD /foo\<close>, \<open>250\<close> for the
  restoring \<open>CWD /\<close>.
\<close>

theorem directoryExists_restores_after_answered_probe_witness:
  "directoryExists (Some ''/foo'')
     (new_connection\<lparr>responseQueue :=
        [\<lparr>code = 257, message = CHR 0x22 # CHR ''/'' # CHR 0x22 # '' is current directory.''\<rparr>,
         \<lparr>code = 550, message = ''CWD failed.''\<rparr>,
         \<lparr>code = 250, message = ''CWD successful.''\<rparr>]\<rparr>) =
   (Inr False, new_connection\<lparr>written := [''PWD'', ''CWD /foo'', ''CWD /'']\<rparr>)"
proof -
  let ?r1 = "\<lparr>code = 257, message = CHR 0x22 # CHR ''/'' # CHR 0x22 # '' is current directory.''\<rparr>"
  let ?r2 = "\<lparr>code = 550, message = ''CWD failed.''\<rparr>"
  let ?r3 = "\<lparr>code = 250, message = ''CWD successful.''\<rparr>"
  let ?c = "new_connection\<lparr>responseQueue := [?r1, ?r2, ?r3]\<rparr>"
  have h: "sock ?c = Established \<and> responseQueue ?c = ?r1 # ?r2 # ?r3 # [] \<and> code ?r1 < 300 \<and>
      RE_PWD_exec (message ?r1) = Some ''/''"
    using RE_PWD_exec_root by (simp add: new_connection_def)
  have "directoryExists (Some ''/foo'') ?c =
        (Inr (code ?r2 < 300),
         ?c\<lparr>written := written ?c @ [''PWD'', ''CWD '' @ probe_target ''/'' ''/foo'', ''CWD '' @ ''/''],
           responseQueue := []\<rparr>)"
    using directoryExists_restores_after_answered_probe [of ?c "''/foo''"] h by blast
  then show ?thesis
    by (simp add: new_connection_def probe_target_def fspath_isAbsolute_def)
qed

text \<open>
  C6 as stated fails for the outcome "failure": when the probe \<open>CWD /foo\<close> gets no
  reply before the timeout, \<open>directoryExists\<close> rejects and the last line sent is the
  probe, not a restoring \<open>CWD /\<close>.
\<close>

theorem directoryExists_no_restore_on_failure_counterexample:
  "directoryExists (Some ''/foo'')
     (new_connection\<lparr>responseQueue :=
        [\<lparr>code = 257,
          message = CHR 0x22 # CHR ''/'' # CHR 0x22 # '' is current directory.''\<rparr>]\<rparr>) =
   (Inl (FtpTimeoutException ''Command response timeout''),
    new_connection\<lparr>written := [''PWD'', ''CWD /foo'']\<rparr>)"
  by (simp add: dir_defs monad_defs fspath_isAbsolute_def new_connection_def
      RE_PWD_at_def RE_PWD_group_def dot_def)

subsection \<open>C7: the login handshake\<close>

lemmas login_defs = FtpLoginCommand_execute_def FtpWelcomeCommand_execute_def
  FtpUserCommand_execute_def FtpPasswordCommand_execute_def FtpFeaturesCommand_execute_def
  FtpOptionCommand_execute_def TransferModeCommand_execute_def assign_features_def
  FromResponse_def

lemma toUpperCase_UTF8_ON: "toUpperCase ''UTF8'' = ''UTF8''" "toUpperCase ''ON'' = ''ON''"
  by (simp_all add: toUpperCase_def)

lemma login_user_rejected:
  "sock c = Established \<Longrightarrow> responseQueue c = r0 # r1 # rest \<Longrightarrow>
   code r0 = 220 \<Longrightarrow> code r1 \<noteq> 331 \<Longrightarrow>
   FtpLoginCommand_execute u p c =
     (Inl (FtpException ''Cannot login to ftp server'' None),
      c\<lparr>written := written c @ [''USER '' @ u], responseQueue := rest\<rparr>)"
  by (simp add: login_defs monad_defs)

lemma login_pass_rejected:
  "sock c = Established \<Longrightarrow> responseQueue c = r0 # r1 # r2 # rest \<Longrightarrow>
   code r0 = 220 \<Longrightarrow> code r1 = 331 \<Longrightarrow> code r2 = 530 \<Longrightarrow>
   FtpLoginCommand_execute u p c =
     (Inl (FtpAuthorizationException ''Login failed'' (Some 530)),
      c\<lparr>written := written c @ [''USER '' @ u, ''PASS '' @ p], responseQueue := rest\<rparr>)"
  by (simp add: login_defs monad_defs)

lemma login_utf8:
  "sock c = Established \<Longrightarrow> responseQueue c = r0 # r1 # r2 # r3 # r4 # r5 # rest \<Longrightarrow>
   code r0 = 220 \<Longrightarrow> code r1 = 331 \<Longrightarrow> code r2 \<noteq> 530 \<Longrightarrow> code r3 = 211 \<Longrightarrow>
   str_includes (message r3) ''UTF8'' \<Longrightarrow> code r4 < 300 \<Longrightarrow> code r5 = 200 \<Longrightarrow>
   FtpLoginCommand_execute u p c =
     (Inr (),
      c\<lparr>features := advertised (message r3),
        written := written c @
          [''USER '' @ u, ''PASS '' @ p, ''FEAT'', ''OPTS UTF8 ON'', ''TYPE I''],
        responseQueue := rest\<rparr>)"
  by (simp add: login_defs monad_defs toUpperCase_UTF8_ON advertised_def)

lemma login_no_utf8:
  "sock c = Established \<Longrightarrow> responseQueue c = r0 # r1 # r2 # r3 # r5 # rest \<Longrightarrow>
   code r0 = 220 \<Longrightarrow> code r1 = 331 \<Longrightarrow> code r2 \<noteq> 530 \<Longrightarrow> code r3 = 211 \<Longrightarrow>
   \<not> str_includes (message r3) ''UTF8'' \<Longrightarrow> code r5 = 200 \<Longrightarrow>
   FtpLoginCommand_execute u p c =
     (Inr (),
      c\<lparr>features := advertised (message r3),
        written := written c @ [''USER '' @ u, ''PASS '' @ p, ''FEAT'', ''TYPE I''],
        responseQueue := rest\<rparr>)"
  by (simp add: login_defs monad_defs advertised_def)

lemma login_success_trace:
  assumes "fst (FtpLoginCommand_execute u p c) = Inr ()"
  shows "\<exists>r0 r1 r2 r3 rest. responseQueue c = r0 # r1 # r2 # r3 # rest \<and>
      code r0 = 220 \<and> code r1 = 331 \<and> code r2 \<noteq> 530 \<and> code r3 = 211 \<and>
      features (snd (FtpLoginCommand_execute u p c)) = advertised (message r3) \<and>
      written (snd (FtpLoginCommand_execute u p c)) =
        written c @ [''USER '' @ u, ''PASS '' @ p, ''FEAT''] @
          (if str_includes (message r3) ''UTF8'' then [''OPTS UTF8 ON''] else []) @
          [''TYPE I'']"
proof -
  have est: "sock c = Established"
    using assms
    by (cases "sock c") (simp_all add: FtpLoginCommand_execute_def await_def send_def)
  obtain r0 q0 where q0: "responseQueue c = r0 # q0"
    using assms est by (cases "responseQueue c") (simp_all add: login_defs monad_defs)
  have c0: "code r0 = 220"
    using assms est q0 by (simp add: login_defs monad_defs split: if_splits)
  obtain r1 q1 where q1: "q0 = r1 # q1"
    using assms est q0 c0 by (cases q0) (simp_all add: login_defs monad_defs)
  have c1: "code r1 = 331"
    using assms est q0 c0 q1 by (simp add: login_defs monad_defs split: if_splits)
  obtain r2 q2 where q2: "q1 = r2 # q2"
    using assms est q0 c0 q1 c1 by (cases q1) (simp_all add: login_defs monad_defs)
  have c2: "code r2 \<noteq> 530"
    using assms est q0 c0 q1 c1 q2 by (simp add: login_defs monad_defs split: if_splits)
  obtain r3 q3 where q3: "q2 = r3 # q3"
    using assms est q0 c0 q1 c1 q2 c2 by (cases q2) (simp_all add: login_defs monad_defs)
  have c3: "code r3 = 211"
    using assms est q0 c0 q1 c1 q2 c2 q3 by (simp add: login_defs monad_defs split: if_splits)
  have rest: "features (snd (FtpLoginCommand_execute u p c)) = advertised (message r3) \<and>
      written (snd (FtpLoginCommand_execute u p c)) =
        written c @ [''USER '' @ u, ''PASS '' @ p, ''FEAT''] @
          (if str_includes (message r3) ''UTF8'' then [''OPTS UTF8 ON''] else []) @
          [''TYPE I'']"
    using assms est q0 c0 q1 c1 q2 c2 q3 c3
    by (auto simp: login_defs monad_defs toUpperCase_UTF8_ON advertised_def
        split: if_splits list.splits)
  from q0 q1 q2 q3 c0 c1 c2 c3 rest show ?thesis by blast
qed

lemma advertised_all_seven:
  "str_includes msg ''MDTM'' \<Longrightarrow> str_includes msg ''SIZE'' \<Longrightarrow> str_includes msg ''MLST'' \<Longrightarrow>
   str_includes msg ''MLSD'' \<Longrightarrow> str_includes msg ''UTF8'' \<Longrightarrow> str_includes msg ''MFMT'' \<Longrightarrow>
   str_includes msg ''EPSV'' \<Longrightarrow>
   advertised msg =
     \<lparr>MDTM = True, MFMT = True, MLSD = True, MLST = True, SIZE = True, UTF8 = True,
      EPSV = True\<rparr>"
  by (simp add: advertised_def)

text \<open>
  C7. Whenever the login resolves, the replies it took start with the greeting 220, a 331
  after USER, a code other than 530 after PASS and a 211 after FEAT, and the lines it sent
  are exactly \<open>USER u\<close>, \<open>PASS p\<close>, \<open>FEAT\<close>, then \<open>OPTS UTF8 ON\<close> if and only if the
  text of the FEAT reply contains \<open>UTF8\<close>, then \<open>TYPE I\<close>; the features of the
  connection are those the FEAT reply advertises. After the greeting, a reply other than
  331 to USER rejects with the plain \<open>FtpException\<close> (the protocol error) after the one
  line \<open>USER u\<close>, and a reply 530 to PASS rejects with the
  \<open>FtpAuthorizationException\<close> after \<open>USER u\<close> and \<open>PASS p\<close>. With the replies in
  order (and a code below 300 for OPTS, 200 for TYPE) the login does resolve. A FEAT reply
  that contains all seven tokens sets all seven features.
\<close>

theorem login_handshake:
  "(fst (FtpLoginCommand_execute u p c) = Inr () \<longrightarrow>
      (\<exists>r0 r1 r2 r3 rest. responseQueue c = r0 # r1 # r2 # r3 # rest \<and>
         code r0 = 220 \<and> code r1 = 331 \<and> code r2 \<noteq> 530 \<and> code r3 = 211 \<and>
         features (snd (FtpLoginCommand_execute u p c)) = advertised (message r3) \<and>
         written (snd (FtpLoginCommand_execute u p c)) =
           written c @ [''USER '' @ u, ''PASS '' @ p, ''FEAT''] @
             (if str_includes (message r3) ''UTF8'' then [''OPTS UTF8 ON''] else []) @
             [''TYPE I''])) \<and>
   (\<forall>r0 r1 rest.
      sock c = Established \<and> responseQueue c = r0 # r1 # rest \<and>
      code r0 = 220 \<and> code r1 \<noteq> 331 \<longrightarrow>
      FtpLoginCommand_execute u p c =
        (Inl (FtpException ''Cannot login to ftp server'' None),
         c\<lparr>written := written c @ [''USER '' @ u], responseQueue := rest\<rparr>)) \<and>
   (\<forall>r0 r1 r2 rest.
      sock c = Established \<and> responseQueue c = r0 # r1 # r2 # rest \<and>
      code r0 = 220 \<and> code r1 = 331 \<and> code r2 = 530 \<longrightarrow>
      FtpLoginCommand_execute u p c =
        (Inl (FtpAuthorizationException ''Login failed'' (Some 530)),
         c\<lparr>written := written c @ [''USER '' @ u, ''PASS '' @ p], responseQueue := rest\<rparr>)) \<and>
   (\<forall>r0 r1 r2 r3 r4 r5 rest.
      sock c = Established \<and> responseQueue c = r0 # r1 # r2 # r3 # r4 # r5 # rest \<and>
      code r0 = 220 \<and> code r1 = 331 \<and> code r2 \<noteq> 530 \<and> code r3 = 211 \<and>
      str_includes (message r3) ''UTF8'' \<and> code r4 < 300 \<and> code r5 = 200 \<longrightarrow>
      FtpLoginCommand_execute u p c =
        (Inr (),
         c\<lparr>features := advertised (message r3),
           written := written c @
             [''USER '' @ u, ''PASS '' @ p, ''FEAT'', ''OPTS UTF8 ON'', ''TYPE I''],
           responseQueue := rest\<rparr>)) \<and>
   (\<forall>r0 r1 r2 r3 r5 rest.
      sock c = Established \<and> responseQueue c = r0 # r1 # r2 # r3 # r5 # rest \<and>
      code r0 = 220 \<and> code r1 = 331 \<and> code r2 \<noteq> 530 \<and> code r3 = 211 \<and>
      \<not> str_includes (message r3) ''UTF8'' \<and> code r5 = 200 \<longrightarrow>
      FtpLoginCommand_execute u p c =
        (Inr (),
         c\<lparr>features := advertised (message r3),
           written := written c @ [''USER '' @ u, ''PASS '' @ p, ''FEAT'', ''TYPE I''],
           responseQueue := rest\<rparr>)) \<and>
   (\<forall>msg.
      str_includes msg ''MDTM'' \<and> str_includes msg ''SIZE'' \<and> str_includes msg ''MLST'' \<and>
      str_includes msg ''MLSD'' \<and> str_includes msg ''UTF8'' \<and> str_includes msg ''MFMT'' \<and>
      str_includes msg ''EPSV'' \<longrightarrow>
      advertised msg =
        \<lparr>MDTM = True, MFMT = True, MLSD = True, MLST = True, SIZE = True, UTF8 = True,
         EPSV = True\<rparr>)"
proof (intro conjI)
  show "fst (FtpLoginCommand_execute u p c) = Inr () \<longrightarrow>
      (\<exists>r0 r1 r2 r3 rest. responseQueue c = r0 # r1 # r2 # r3 # rest \<and>
         code r0 = 220 \<and> code r1 = 331 \<and> code r2 \<noteq> 530 \<and> code r3 = 211 \<and>
         features (snd (FtpLoginCommand_execute u p c)) = advertised (message r3) \<and>
         written (snd (FtpLoginCommand_execute u p c)) =
           written c @ [''USER '' @ u, ''PASS '' @ p, ''FEAT''] @
             (if str_includes (message r3) ''UTF8'' then [''OPTS UTF8 ON''] else []) @
             [''TYPE I''])"
    by (intro impI) (rule login_success_trace)
next
  show "\<forall>r0 r1 rest.
      sock c = Established \<and> responseQueue c = r0 # r1 # rest \<and>
      code r0 = 220 \<and> code r1 \<noteq> 331 \<longrightarrow>
      FtpLoginCommand_execute u p c =
        (Inl (FtpException ''Cannot login to ftp server'' None),
         c\<lparr>written := written c @ [''USER '' @ u], responseQueue := rest\<rparr>)"
    by (intro allI impI, elim conjE) (rule login_user_rejected)
next
  show "\<forall>r0 r1 r2 rest.
      sock c = Established \<and> responseQueue c = r0 # r1 # r2 # rest \<and>
      code r0 = 220 \<and> code r1 = 331 \<and> code r2 = 530 \<longrightarrow>
      FtpLoginCommand_execute u p c =
        (Inl (FtpAuthorizationException ''Login failed'' (Some 530)),
         c\<lparr>written := written c @ [''USER '' @ u, ''PASS '' @ p], responseQueue := rest\<rparr>)"
    by (intro allI impI, elim conjE) (rule login_pass_rejected)
next
  show "\<forall>r0 r1 r2 r3 r4 r5 rest.
      sock c = Established \<and> responseQueue c = r0 # r1 # r2 # r3 # r4 # r5 # rest \<and>
      code r0 = 220 \<and> code r1 = 331 \<and> code r2 \<noteq> 530 \<and> code r3 = 211 \<and>
      str_includes (message r3) ''UTF8'' \<and> code r4 < 300 \<and> code r5 = 200 \<longrightarrow>
      FtpLoginCommand_execute u p c =
        (Inr (),
         c\<lparr>features := advertised (message r3),
           written := written c @
             [''USER '' @ u, ''PASS '' @ p, ''FEAT'', ''OPTS UTF8 ON'', ''TYPE I''],
           responseQueue := rest\<rparr>)"
    by (intro allI impI, elim conjE) (rule login_utf8)
next
  show "\<forall>r0 r1 r2 r3 r5 rest.
      sock c = Established \<and> responseQueue c = r0 # r1 # r2 # r3 # r5 # rest \<and>
      code r0 = 220 \<and> code r1 = 331 \<and> code r2 \<noteq> 530 \<and> code r3 = 211 \<and>
      \<not> str_includes (message r3) ''UTF8'' \<and> code r5 = 200 \<longrightarrow>
      FtpLoginCommand_execute u p c =
        (Inr (),
         c\<lparr>features := advertised (message r3),
           written := written c @ [''USER '' @ u, ''PASS '' @ p, ''FEAT'', ''TYPE I''],
           responseQueue := rest\<rparr>)"
    by (intro allI impI, elim conjE) (rule login_no_utf8)
next
  show "\<forall>msg.
      str_includes msg ''MDTM'' \<and> str_includes msg ''SIZE'' \<and> str_includes msg ''MLST'' \<and>
      str_includes msg ''MLSD'' \<and> str_includes msg ''UTF8'' \<and> str_includes msg ''MFMT'' \<and>
      str_includes msg ''EPSV'' \<longrightarrow>
      advertised msg =
        \<lparr>MDTM = True, MFMT = True, MLSD = True, MLST = True, SIZE = True, UTF8 = True,
         EPSV = True\<rparr>"
    by (intro allI impI, elim conjE) (rule advertised_all_seven)
qed

text \<open>
  The theorem on the handshake of the repository's test: greeting, 331, 230, the
  multi-line 211 with the seven features, 202 for OPTS and 200 for TYPE.
\<close>

theorem login_handshake_witness:
  "connect
     (new_connection\<lparr>responseQueue :=
        [\<lparr>code = 220, message = ''FtpFake server''\<rparr>,
         \<lparr>code = 331, message = ''Password required for anonymous''\<rparr>,
         \<lparr>code = 230, message = ''Logged on''\<rparr>,
         \<lparr>code = 211, message = ''Features MDTM REST STREAM SIZE MLST MLSD UTF8 CLNT MFMT EPSV End''\<rparr>,
         \<lparr>code = 202, message = ''UTF8 mode is always enabled.''\<rparr>,
         \<lparr>code = 200, message = ''Type set to I''\<rparr>]\<rparr>) =
   (Inr (),
    new_connection\<lparr>
      features := \<lparr>MDTM = True, MFMT = True, MLSD = True, MLST = True, SIZE = True,
                   UTF8 = True, EPSV = True\<rparr>,
      written := [''USER anonymous'', ''PASS anonymous'', ''FEAT'', ''OPTS UTF8 ON'', ''TYPE I'']\<rparr>)"
proof -
  let ?feat = "''Features MDTM REST STREAM SIZE MLST MLSD UTF8 CLNT MFMT EPSV End''"
  let ?r0 = "\<lparr>code = 220, message = ''FtpFake server''\<rparr>"
  let ?r1 = "\<lparr>code = 331, message = ''Password required for anonymous''\<rparr>"
  let ?r2 = "\<lparr>code = 230, message = ''Logged on''\<rparr>"
  let ?r3 = "\<lparr>code = 211, message = ?feat\<rparr>"
  let ?r4 = "\<lparr>code = 202, message = ''UTF8 mode is always enabled.''\<rparr>"
  let ?r5 = "\<lparr>code = 200, message = ''Type set to I''\<rparr>"
  let ?c = "new_connection\<lparr>responseQueue := [?r0, ?r1, ?r2, ?r3, ?r4, ?r5]\<rparr>"
  have inc: "str_includes ?feat ''MDTM''" "str_includes ?feat ''SIZE''"
    "str_includes ?feat ''MLST''" "str_includes ?feat ''MLSD''" "str_includes ?feat ''UTF8''"
    "str_includes ?feat ''MFMT''" "str_includes ?feat ''EPSV''"
    by simp_all
  have h: "sock ?c = Established \<and> responseQueue ?c = ?r0 # ?r1 # ?r2 # ?r3 # ?r4 # ?r5 # [] \<and>
      code ?r0 = 220 \<and> code ?r1 = 331 \<and> code ?r2 \<noteq> 530 \<and> code ?r3 = 211 \<and>
      str_includes (message ?r3) ''UTF8'' \<and> code ?r4 < 300 \<and> code ?r5 = 200"
    using inc by (simp add: new_connection_def)
  have run: "FtpLoginCommand_execute ''anonymous'' ''anonymous'' ?c =
        (Inr (),
         ?c\<lparr>features := advertised (message ?r3),
           written := written ?c @
             [''USER '' @ ''anonymous'', ''PASS '' @ ''anonymous'', ''FEAT'', ''OPTS UTF8 ON'',
              ''TYPE I''],
           responseQueue := []\<rparr>)"
    using login_handshake [of "''anonymous''" "''anonymous''" ?c] h by blast
  have adv: "advertised ?feat =
        \<lparr>MDTM = True, MFMT = True, MLSD = True, MLST = True, SIZE = True, UTF8 = True,
         EPSV = True\<rparr>"
    using login_handshake [of "''anonymous''" "''anonymous''" ?c] inc by blast
  from run adv show ?thesis
    by (simp add: connect_def send_def new_connection_def)
qed

subsection \<open>C10: rename with an empty operand\<close>

text \<open>
  C10. When either operand of \<open>rename\<close> is \<open>null\<close>, \<open>undefined\<close> or the empty
  string, the call rejects with a \<open>FtpException\<close> (an argument error, without a reply
  code) and returns the connection as it found it: no line is written, no reply is taken
  from the queue, no other field changes.
\<close>

theorem rename_argument_error_before_traffic:
  assumes "from_name = None \<or> from_name = Some [] \<or> to_name = None \<or> to_name = Some []"
  shows "\<exists>msg. rename from_name to_name c = (Inl (FtpException msg None), c)"
  using assms
  by (auto simp: rename_def RenameCommand_new_def reject_def split: option.splits)

text \<open>
  The theorem on the first call of the repository's test, \<open>rename("", "/foo2.txt")\<close>,
  with the reply to a RNFR waiting in the queue.
\<close>

theorem rename_argument_error_before_traffic_witness:
  "\<exists>msg. rename (Some []) (Some ''/foo2.txt'')
            (new_connection\<lparr>responseQueue := [\<lparr>code = 350, message = ''ready''\<rparr>]\<rparr>) =
          (Inl (FtpException msg None),
           new_connection\<lparr>responseQueue := [\<lparr>code = 350, message = ''ready''\<rparr>]\<rparr>)"
  using rename_argument_error_before_traffic [of "Some []" "Some ''/foo2.txt''"]
  by simp

text \<open>With both operands present the command does reach the wire.\<close>

lemma rename_traffic:
  "rename (Some ''/foo.txt'') (Some ''/foo2.txt'')
     (new_connection\<lparr>responseQueue :=
        [\<lparr>code = 350, message = ''ready''\<rparr>, \<lparr>code = 250, message = ''ok''\<rparr>]\<rparr>) =
   (Inr (), new_connection\<lparr>written := [''RNFR /foo.txt'', ''RNTO /foo2.txt'']\<rparr>)"
  by (simp add: rename_def RenameCommand_new_def RenameCommand_execute_def
      RenameFromCommand_new_def RenameToCommand_new_def RenameFromCommand_execute_def
      RenameToCommand_execute_def monad_defs new_connection_def)

section \<open>Where the code departs from the claims\<close>

subsection \<open>C3: readToEnd\<close>

text \<open>
  As long as the received bytes fit the first buffer of 1024 bytes, and \<open>dispose\<close>
  returns, \<open>readToEnd\<close> resolves with their concatenation in arrival order.
\<close>

lemma foldl_readToEnd_onData_fits:
  "marker + length (concat chunks) \<le> length result \<Longrightarrow>
   foldl readToEnd_onData (marker, result) chunks =
     (marker + length (concat chunks),
      take marker result @ concat chunks @ drop (marker + length (concat chunks)) result)"
proof (induction chunks arbitrary: marker result)
  case Nil
  then show ?case by simp
next
  case (Cons b bs)
  let ?r = "take marker result @ b @ drop (marker + length b) result"
  have step: "readToEnd_onData (marker, result) b = (marker + length b, ?r)"
    using Cons.prems by (simp add: readToEnd_onData_def Buffer_copy_def)
  have len: "length ?r = length result" using Cons.prems by simp
  have "foldl readToEnd_onData (marker + length b, ?r) bs =
     (marker + length b + length (concat bs),
      take (marker + length b) ?r @ concat bs @
        drop (marker + length b + length (concat bs)) ?r)"
    using Cons.prems len by (intro Cons.IH) simp
  moreover have "take (marker + length b) ?r = take marker result @ b"
    using Cons.prems by simp
  moreover have "drop (marker + length b + length (concat bs)) ?r =
      drop (marker + length (concat (b # bs))) result"
    using Cons.prems by (simp add: ac_simps)
  ultimately show ?case using step by (simp add: add.assoc)
qed

lemma readToEnd_within_first_buffer:
  "length (concat chunks) \<le> 1024 \<Longrightarrow> readToEnd True chunks = Inr (concat chunks)"
  using foldl_readToEnd_onData_fits [of 0 chunks "Buffer_alloc 1024"]
  by (simp add: readToEnd_def readToEnd_onEnd_def Buffer_copy_def Buffer_alloc_def Let_def)

text \<open>
  C3 fails on the code once the buffer must grow. The branch of the \<open>data\<close> handler
  that doubles the buffer does not copy the chunk that made it grow: a single chunk of
  1025 bytes is lost whole and \<open>readToEnd\<close> resolves with the empty buffer; after a
  chunk of 1000 bytes, a chunk of 100 bytes is lost and the result is the first 1000
  bytes. Where \<open>dispose\<close> throws in the \<open>end\<close> handler, no buffer is returned at all.
\<close>

theorem readToEnd_drops_chunk_that_grows_buffer:
  "readToEnd True [replicate 1025 (CHR ''a'')] = Inr [] \<and>
   readToEnd True [replicate 1000 (CHR ''a''), replicate 100 (CHR ''b'')] =
     Inr (replicate 1000 (CHR ''a'')) \<and>
   readToEnd False [replicate 1025 (CHR ''a'')] = Inl TypeError"
  by (simp add: readToEnd_def readToEnd_onData_def readToEnd_onEnd_def Buffer_copy_def
      Buffer_alloc_def Let_def)

subsection \<open>C4: MDTM\<close>

text \<open>
  C4 fails on the code at the reply of the claim itself. On \<open>213 20180608233854\<close> the
  command resolves with the time value 1531093134000, which is 2018-07-08 23:38:54 UTC:
  the month 06 of the reply goes to the \<open>Date\<close> constructor unchanged, where months
  count from 0. The time value of 2018-06-08 23:38:54 UTC is 1528501134000. This holds
  for every time zone offset \<open>tz\<close> of the host. Nor is every 213 reply parsed: the
  regular expression is global, so the call after a successful one starts its search at
  index 14, finds nothing in the same reply text, and the read of the groups throws.
\<close>

theorem mdtm_month_off_by_one:
  "getLastModificationTime tz ''/foo.txt''
     (new_connection\<lparr>features := (features new_connection)\<lparr>MDTM := True\<rparr>,
        responseQueue := [\<lparr>code = 213, message = ''20180608233854'' @ NEW_LINE\<rparr>]\<rparr>) =
     (Inr (Some 1531093134000),
      new_connection\<lparr>features := (features new_connection)\<lparr>MDTM := True\<rparr>,
        written := [''MDTM /foo.txt''], lastIndex := 14\<rparr>) \<and>
   MakeDate (MakeDay 2018 6 8) (MakeTime 23 38 54 0) = 1531093134000 \<and>
   MakeDate (MakeDay 2018 5 8) (MakeTime 23 38 54 0) = 1528501134000 \<and>
   getLastModificationTime tz ''/foo.txt''
     (new_connection\<lparr>features := (features new_connection)\<lparr>MDTM := True\<rparr>,
        responseQueue := [\<lparr>code = 213, message = ''20180608233854'' @ NEW_LINE\<rparr>],
        written := [''MDTM /foo.txt''], lastIndex := 14\<rparr>) =
     (Inl TypeError,
      new_connection\<lparr>features := (features new_connection)\<lparr>MDTM := True\<rparr>,
        written := [''MDTM /foo.txt'', ''MDTM /foo.txt''], lastIndex := 0\<rparr>)"
  by (simp add: getLastModificationTime_def LastModifiedTimeCommand_execute_def monad_defs
      new_connection_def NEW_LINE_def trim_def is_space_def RE_LAST_MOD_TIME_exec_def
      RE_LAST_MOD_TIME_at_def is_digit_def new_Date_def parseInt_def strip_sign_def
      digit_val_def MakeDate_def MakeDay_def MakeTime_def DayFromYear_def InLeapYear_def
      DaysBeforeMonth_def)

subsection \<open>C8: recursive make-directory\<close>

text \<open>
  The scenario of the specification: \<open>/a/b/c\<close> on a server that has \<open>/a\<close> only.
\<close>

lemma mkdir_creates_missing_segments:
  "createDir ''/a/b/c'' True
     (new_connection\<lparr>responseQueue :=
        [\<lparr>code = 250, message = ''ok''\<rparr>, \<lparr>code = 250, message = ''ok''\<rparr>,
         \<lparr>code = 550, message = ''no''\<rparr>, \<lparr>code = 257, message = ''made''\<rparr>,
         \<lparr>code = 250, message = ''ok''\<rparr>, \<lparr>code = 550, message = ''no''\<rparr>,
         \<lparr>code = 257, message = ''made''\<rparr>, \<lparr>code = 250, message = ''ok''\<rparr>]\<rparr>) =
   (Inr (),
    new_connection\<lparr>written :=
      [''CWD /'', ''CWD /a'', ''CWD /a/b'', ''MKD b'', ''CWD /a/b'',
       ''CWD /a/b/c'', ''MKD c'', ''CWD /a/b/c'']\<rparr>)"
  by (simp add: createDir_def make_and_enter_def checkResponse_def CwdCommand_execute_def
      pop_string_def monad_defs new_connection_def trim_def is_space_def Let_def)

text \<open>
  C8 fails on the code when every segment exists. The loop has no exit for an empty list
  of segments: for \<open>/a\<close> on a server that has \<open>/a\<close>, after \<open>CWD /\<close> and \<open>CWD /a\<close>
  succeed it shifts \<open>undefined\<close> from the empty list, probes \<open>/a/undefined\<close>, and on
  the server's 550 creates a directory named \<open>undefined\<close> and enters it.
\<close>

theorem mkdir_existing_path_makes_undefined:
  "createDir ''/a'' True
     (new_connection\<lparr>responseQueue :=
        [\<lparr>code = 250, message = ''CWD successful'' @ NEW_LINE\<rparr>,
         \<lparr>code = 250, message = ''CWD successful'' @ NEW_LINE\<rparr>,
         \<lparr>code = 550, message = ''CWD failed'' @ NEW_LINE\<rparr>,
         \<lparr>code = 257, message = ''created'' @ NEW_LINE\<rparr>,
         \<lparr>code = 250, message = ''CWD successful'' @ NEW_LINE\<rparr>]\<rparr>) =
   (Inr (),
    new_connection\<lparr>written :=
      [''CWD /'', ''CWD /a'', ''CWD /a/undefined'', ''MKD undefined'', ''CWD /a/undefined'']\<rparr>)"
  by (simp add: createDir_def make_and_enter_def checkResponse_def CwdCommand_execute_def
      pop_string_def monad_defs new_connection_def trim_def is_space_def Let_def)

subsection \<open>C9: recursive delete-directory\<close>

text \<open>
  C9 fails on the code: with \<open>recursive = true\<close>, \<open>deleteDirectory\<close> removes the
  subdirectories of \<open>path\<close> and returns; it never runs the delete command on \<open>path\<close>
  itself. For the directory \<open>a\<close> that holds one file and no subdirectory, on a server
  with MLSD, the call resolves after \<open>EPSV\<close> and \<open>MLSD a\<close>: no \<open>CDUP\<close>, no
  \<open>RMD a\<close>, and the reply that ends the transfer is left in the queue. This holds for
  every amount of fuel and every parser of Unix listings.
  Where \<open>dispose\<close> throws in the \<open>end\<close> handler of the listing, the same two lines
  are sent and the call does not complete.
\<close>

theorem recursive_delete_leaves_target:
  "deleteDirectory fuel True parseListLine (Some ''a'') True
     (new_connection\<lparr>
        features := (features new_connection)\<lparr>MLSD := True\<rparr>,
        responseQueue :=
          [\<lparr>code = 229, message = ''Entering Extended Passive Mode (|||9258|)'' @ NEW_LINE\<rparr>,
           \<lparr>code = 150, message = ''Opening data channel'' @ NEW_LINE\<rparr>,
           \<lparr>code = 226, message = ''Transfer complete'' @ NEW_LINE\<rparr>],
        dataStreams := [[''type=file;size=1; f.txt'' @ NEW_LINE]]\<rparr>) =
   Some (Inr (),
     new_connection\<lparr>
        features := (features new_connection)\<lparr>MLSD := True\<rparr>,
        responseQueue := [\<lparr>code = 226, message = ''Transfer complete'' @ NEW_LINE\<rparr>],
        written := [''EPSV'', ''MLSD a'']\<rparr>) \<and>
   deleteDirectory fuel False parseListLine (Some ''a'') True
     (new_connection\<lparr>
        features := (features new_connection)\<lparr>MLSD := True\<rparr>,
        responseQueue :=
          [\<lparr>code = 229, message = ''Entering Extended Passive Mode (|||9258|)'' @ NEW_LINE\<rparr>,
           \<lparr>code = 150, message = ''Opening data channel'' @ NEW_LINE\<rparr>,
           \<lparr>code = 226, message = ''Transfer complete'' @ NEW_LINE\<rparr>],
        dataStreams := [[''type=file;size=1; f.txt'' @ NEW_LINE]]\<rparr>) =
   Some (Inl TypeError,
     new_connection\<lparr>
        features := (features new_connection)\<lparr>MLSD := True\<rparr>,
        responseQueue := [\<lparr>code = 226, message = ''Transfer complete'' @ NEW_LINE\<rparr>],
        written := [''EPSV'', ''MLSD a'']\<rparr>)"
  by (simp add: deleteDirectory_def getDirectories_def FtpListCommand_execute_def
      FtpPassiveModeCommand_execute_def RE_EPSV_exec_def parseInt_def strip_sign_def
      digit_val_def is_digit_def is_space_def trim_def monad_defs new_connection_def
      NEW_LINE_def readToEnd_def readToEnd_onData_def readToEnd_onEnd_def Buffer_copy_def
      Buffer_alloc_def parse_listing_def mlsd_entry_def set_fact_def toLowerCase_def
      fspath_sep_def Let_def)

end
